theory Spec2Isabelle
  imports Main "HOL-Library.Word" "HOL-Library.Multiset" "HOL-Library.Monad_Syntax"
begin

section \<open>JavaScript strings\<close>

text \<open>
  A JavaScript string is a sequence of 16-bit UTF-16 code units. ASCII literals
  of the source are written \<open>js ''...''\<close>; every other code unit is written as
  a numeral. The empty string is the only falsy string.
\<close>

type_synonym jsstring = "16 word list"

definition js :: "string \<Rightarrow> jsstring" where
  "js s = map (\<lambda>c. of_nat (of_char c)) s"

text \<open>
  \<open>String.prototype.trim\<close> removes white space and line terminators from both
  ends: TAB, LF, VT, FF, CR, SP, NBSP, the Unicode space separators, LS, PS and
  the byte order mark.
\<close>

definition is_ws :: "16 word \<Rightarrow> bool" where
  "is_ws c \<longleftrightarrow>
     c \<in> {0x9, 0xA, 0xB, 0xC, 0xD, 0x20, 0xA0, 0x1680, 0x2028, 0x2029, 0x202F,
          0x205F, 0x3000, 0xFEFF} \<or> (0x2000 \<le> c \<and> c \<le> 0x200A)"

definition trimStart :: "jsstring \<Rightarrow> jsstring" where
  "trimStart s = dropWhile is_ws s"

definition trimEnd :: "jsstring \<Rightarrow> jsstring" where
  "trimEnd s = rev (dropWhile is_ws (rev s))"

definition trim :: "jsstring \<Rightarrow> jsstring" where
  "trim s = trimEnd (trimStart s)"

text \<open>
  A property read yields \<open>None\<close> for \<open>undefined\<close>. \<open>a || b\<close> is \<open>a\<close> when
  \<open>a\<close> is truthy and \<open>b\<close> otherwise.
\<close>

definition truthy :: "jsstring option \<Rightarrow> bool" where
  "truthy a = (case a of None \<Rightarrow> False | Some s \<Rightarrow> s \<noteq> [])"

definition js_or :: "jsstring option \<Rightarrow> jsstring option \<Rightarrow> jsstring option" where
  "js_or a b = (if truthy a then a else b)"

definition or_default :: "jsstring option \<Rightarrow> jsstring \<Rightarrow> jsstring" where
  "or_default a d = (case a of None \<Rightarrow> d | Some s \<Rightarrow> if s \<noteq> [] then s else d)"

section \<open>Localization: \<open>translations\<close> and \<open>t\<close>\<close>

text \<open>
  The object literal \<open>translations\<close> maps a language code to a table of
  interface strings. Object literals are association lists of their own
  properties, in source order.
\<close>

definition tr_pt :: "(jsstring \<times> jsstring) list" where
  "tr_pt =
    [(js ''title'', js ''Meu Assistente de Voz''),
     (js ''placeholder'', js ''Digite seu comando''),
     (js ''sendText'', js ''Enviar comando''),
     (js ''speak'', js ''Falar''),
     (js ''viewHistory'', js ''Ver conversa completa''),
     (js ''feedbackTitle'', js ''Enviar Feedback''),
     (js ''feedbackPlaceholder'', js ''Digite seu feedback...''),
     (js ''ratingLabel'', js ''Avalia'' @ [0xE7, 0xE3] @ js ''o:''),
     (js ''sendFeedback'', js ''Enviar Feedback''),
     (js ''recording'', [0xD83C, 0xDF99, 0xFE0F] @ js '' Gravando...''),
     (js ''speakBtn'', [0xD83C, 0xDF99, 0xFE0F] @ js '' Falar''),
     (js ''responseTitle'', js ''Resposta do Assistente:''),
     (js ''uploading'', [0x23F3] @ js '' Enviando '' @ [0xE1] @ js ''udio...''),
     (js ''uploaded'', [0x2705] @ js '' '' @ [0xC1] @ js ''udio enviado''),
     (js ''uploadError'', [0x274C] @ js '' Erro ao enviar '' @ [0xE1] @ js ''udio''),
     (js ''micNotSupported'', js ''Seu navegador n'' @ [0xE3] @ js ''o suporta grava'' @ [0xE7, 0xE3] @ js ''o de '' @ [0xE1] @ js ''udio.''),
     (js ''recordingNotSupported'', js ''Grava'' @ [0xE7, 0xE3] @ js ''o n'' @ [0xE3] @ js ''o suportada neste navegador.''),
     (js ''micAccessError'', js ''N'' @ [0xE3] @ js ''o foi poss'' @ [0xED] @ js ''vel acessar o microfone. Verifique permiss'' @ [0xF5] @ js ''es e dispositivo.''),
     (js ''recognitionNotSupported'', js ''Reconhecimento de voz n'' @ [0xE3] @ js ''o suportado neste navegador.''),
     (js ''feedbackEmpty'', [0x26A0, 0xFE0F] @ js '' Escreva uma mensagem antes de enviar.''),
     (js ''feedbackSent'', js ''Feedback enviado com sucesso!''),
     (js ''feedbackError'', [0x26A0, 0xFE0F] @ js '' N'' @ [0xE3] @ js ''o foi poss'' @ [0xED] @ js ''vel enviar o feedback.''),
     (js ''assistantNotAvailable'', js ''Sem resposta.'')]"

definition tr_en :: "(jsstring \<times> jsstring) list" where
  "tr_en =
    [(js ''title'', js ''My Voice Assistant''),
     (js ''placeholder'', js ''Type your command''),
     (js ''sendText'', js ''Send command''),
     (js ''speak'', js ''Speak''),
     (js ''viewHistory'', js ''View full conversation''),
     (js ''feedbackTitle'', js ''Send Feedback''),
     (js ''feedbackPlaceholder'', js ''Type your feedback...''),
     (js ''ratingLabel'', js ''Rating:''),
     (js ''sendFeedback'', js ''Send Feedback''),
     (js ''recording'', [0xD83C, 0xDF99, 0xFE0F] @ js '' Recording...''),
     (js ''speakBtn'', [0xD83C, 0xDF99, 0xFE0F] @ js '' Speak''),
     (js ''responseTitle'', js ''Assistant Response:''),
     (js ''uploading'', [0x23F3] @ js '' Uploading audio...''),
     (js ''uploaded'', [0x2705] @ js '' Audio uploaded''),
     (js ''uploadError'', [0x274C] @ js '' Error uploading audio''),
     (js ''micNotSupported'', js ''Your browser does not support audio recording.''),
     (js ''recordingNotSupported'', js ''Recording not supported in this browser.''),
     (js ''micAccessError'', js ''Could not access the microphone. Check permissions and device.''),
     (js ''recognitionNotSupported'', js ''Voice recognition not supported in this browser.''),
     (js ''feedbackEmpty'', [0x26A0, 0xFE0F] @ js '' Write a message before sending.''),
     (js ''feedbackSent'', js ''Feedback sent successfully!''),
     (js ''feedbackError'', [0x26A0, 0xFE0F] @ js '' Could not send feedback.''),
     (js ''assistantNotAvailable'', js ''No response.'')]"

definition tr_es :: "(jsstring \<times> jsstring) list" where
  "tr_es =
    [(js ''title'', js ''Mi Asistente de Voz''),
     (js ''placeholder'', js ''Escribe tu comando''),
     (js ''sendText'', js ''Enviar comando''),
     (js ''speak'', js ''Hablar''),
     (js ''viewHistory'', js ''Ver conversaci'' @ [0xF3] @ js ''n completa''),
     (js ''feedbackTitle'', js ''Enviar Comentarios''),
     (js ''feedbackPlaceholder'', js ''Escribe tus comentarios...''),
     (js ''ratingLabel'', js ''Calificaci'' @ [0xF3] @ js ''n:''),
     (js ''sendFeedback'', js ''Enviar Comentarios''),
     (js ''recording'', [0xD83C, 0xDF99, 0xFE0F] @ js '' Grabando...''),
     (js ''speakBtn'', [0xD83C, 0xDF99, 0xFE0F] @ js '' Hablar''),
     (js ''responseTitle'', js ''Respuesta del Asistente:''),
     (js ''uploading'', [0x23F3] @ js '' Enviando audio...''),
     (js ''uploaded'', [0x2705] @ js '' Audio enviado''),
     (js ''uploadError'', [0x274C] @ js '' Error al enviar audio''),
     (js ''micNotSupported'', js ''Tu navegador no admite grabaci'' @ [0xF3] @ js ''n de audio.''),
     (js ''recordingNotSupported'', js ''Grabaci'' @ [0xF3] @ js ''n no compatible en este navegador.''),
     (js ''micAccessError'', js ''No se pudo acceder al micr'' @ [0xF3] @ js ''fono. Verifica permisos y dispositivo.''),
     (js ''recognitionNotSupported'', js ''Reconocimiento de voz no compatible en este navegador.''),
     (js ''feedbackEmpty'', [0x26A0, 0xFE0F] @ js '' Escribe un mensaje antes de enviar.''),
     (js ''feedbackSent'', js ''Comentarios enviados con '' @ [0xE9] @ js ''xito!''),
     (js ''feedbackError'', [0x26A0, 0xFE0F] @ js '' No se pudieron enviar los comentarios.''),
     (js ''assistantNotAvailable'', js ''Sin respuesta.'')]"

definition tr_fr :: "(jsstring \<times> jsstring) list" where
  "tr_fr =
    [(js ''title'', js ''Mon Assistant Vocal''),
     (js ''placeholder'', js ''Tapez votre commande''),
     (js ''sendText'', js ''Envoyer commande''),
     (js ''speak'', js ''Parler''),
     (js ''viewHistory'', js ''Voir la conversation compl'' @ [0xE8] @ js ''te''),
     (js ''feedbackTitle'', js ''Envoyer un retour''),
     (js ''feedbackPlaceholder'', js ''Tapez votre retour...''),
     (js ''ratingLabel'', [0xC9] @ js ''valuation:''),
     (js ''sendFeedback'', js ''Envoyer''),
     (js ''recording'', [0xD83C, 0xDF99, 0xFE0F] @ js '' Enregistrement...''),
     (js ''speakBtn'', [0xD83C, 0xDF99, 0xFE0F] @ js '' Parler''),
     (js ''responseTitle'', js ''R'' @ [0xE9] @ js ''ponse de l'assistant:''),
     (js ''uploading'', [0x23F3] @ js '' Envoi de l'audio...''),
     (js ''uploaded'', [0x2705] @ js '' Audio envoy'' @ [0xE9]),
     (js ''uploadError'', [0x274C] @ js '' Erreur lors de l'envoi de l'audio''),
     (js ''micNotSupported'', js ''Votre navigateur ne prend pas en charge l'enregistrement audio.''),
     (js ''recordingNotSupported'', js ''Enregistrement non pris en charge dans ce navigateur.''),
     (js ''micAccessError'', js ''Impossible d'acc'' @ [0xE9] @ js ''der au microphone. V'' @ [0xE9] @ js ''rifiez les autorisations et l'appareil.''),
     (js ''recognitionNotSupported'', js ''Reconnaissance vocale non prise en charge dans ce navigateur.''),
     (js ''feedbackEmpty'', [0x26A0, 0xFE0F] @ js '' '' @ [0xC9] @ js ''crivez un message avant d'envoyer.''),
     (js ''feedbackSent'', js ''Retour envoy'' @ [0xE9] @ js '' avec succ'' @ [0xE8] @ js ''s!''),
     (js ''feedbackError'', [0x26A0, 0xFE0F] @ js '' Impossible d'envoyer le retour.''),
     (js ''assistantNotAvailable'', js ''Pas de r'' @ [0xE9] @ js ''ponse.'')]"

definition tr_de :: "(jsstring \<times> jsstring) list" where
  "tr_de =
    [(js ''title'', js ''Mein Sprachassistent''),
     (js ''placeholder'', js ''Geben Sie Ihren Befehl ein''),
     (js ''sendText'', js ''Befehl senden''),
     (js ''speak'', js ''Sprechen''),
     (js ''viewHistory'', js ''Gespr'' @ [0xE4] @ js ''ch anzeigen''),
     (js ''feedbackTitle'', js ''Feedback senden''),
     (js ''feedbackPlaceholder'', js ''Geben Sie Ihr Feedback ein...''),
     (js ''ratingLabel'', js ''Bewertung:''),
     (js ''sendFeedback'', js ''Feedback senden''),
     (js ''recording'', [0xD83C, 0xDF99, 0xFE0F] @ js '' Aufnahme...''),
     (js ''speakBtn'', [0xD83C, 0xDF99, 0xFE0F] @ js '' Sprechen''),
     (js ''responseTitle'', js ''Antwort des Assistenten:''),
     (js ''uploading'', [0x23F3] @ js '' Audio wird hochgeladen...''),
     (js ''uploaded'', [0x2705] @ js '' Audio hochgeladen''),
     (js ''uploadError'', [0x274C] @ js '' Fehler beim Hochladen des Audios''),
     (js ''micNotSupported'', js ''Ihr Browser unterst'' @ [0xFC] @ js ''tzt keine Audioaufnahme.''),
     (js ''recordingNotSupported'', js ''Aufnahme in diesem Browser nicht unterst'' @ [0xFC] @ js ''tzt.''),
     (js ''micAccessError'', js ''Mikrofon konnte nicht zugegriffen werden. '' @ [0xDC] @ js ''berpr'' @ [0xFC] @ js ''fen Sie Berechtigungen und Ger'' @ [0xE4] @ js ''t.''),
     (js ''recognitionNotSupported'', js ''Spracherkennung in diesem Browser nicht unterst'' @ [0xFC] @ js ''tzt.''),
     (js ''feedbackEmpty'', [0x26A0, 0xFE0F] @ js '' Schreiben Sie eine Nachricht, bevor Sie senden.''),
     (js ''feedbackSent'', js ''Feedback erfolgreich gesendet!''),
     (js ''feedbackError'', [0x26A0, 0xFE0F] @ js '' Feedback konnte nicht gesendet werden.''),
     (js ''assistantNotAvailable'', js ''Keine Antwort.'')]"

definition tr_ar :: "(jsstring \<times> jsstring) list" where
  "tr_ar =
    [(js ''title'', [0x645, 0x633, 0x627, 0x639, 0x62F, 0x64A] @ js '' '' @ [0x627, 0x644, 0x635, 0x648, 0x62A, 0x64A]),
     (js ''placeholder'', [0x627, 0x643, 0x62A, 0x628] @ js '' '' @ [0x623, 0x645, 0x631, 0x643]),
     (js ''sendText'', [0x625, 0x631, 0x633, 0x627, 0x644] @ js '' '' @ [0x627, 0x644, 0x623, 0x645, 0x631]),
     (js ''speak'', [0x62A, 0x62D, 0x62F, 0x62B]),
     (js ''viewHistory'', [0x639, 0x631, 0x636] @ js '' '' @ [0x627, 0x644, 0x645, 0x62D, 0x627, 0x62F, 0x62B, 0x629] @ js '' '' @ [0x643, 0x627, 0x645, 0x644, 0x629]),
     (js ''feedbackTitle'', [0x625, 0x631, 0x633, 0x627, 0x644] @ js '' '' @ [0x645, 0x644, 0x627, 0x62D, 0x638, 0x627, 0x62A]),
     (js ''feedbackPlaceholder'', [0x627, 0x643, 0x62A, 0x628] @ js '' '' @ [0x645, 0x644, 0x627, 0x62D, 0x638, 0x627, 0x62A, 0x643] @ js ''...''),
     (js ''ratingLabel'', [0x627, 0x644, 0x62A, 0x642, 0x64A, 0x64A, 0x645] @ js '':''),
     (js ''sendFeedback'', [0x625, 0x631, 0x633, 0x627, 0x644] @ js '' '' @ [0x627, 0x644, 0x645, 0x644, 0x627, 0x62D, 0x638, 0x627, 0x62A]),
     (js ''recording'', [0xD83C, 0xDF99, 0xFE0F] @ js '' '' @ [0x62C, 0x627, 0x631, 0x64A] @ js '' '' @ [0x627, 0x644, 0x62A, 0x633, 0x62C, 0x64A, 0x644] @ js ''...''),
     (js ''speakBtn'', [0xD83C, 0xDF99, 0xFE0F] @ js '' '' @ [0x62A, 0x62D, 0x62F, 0x62B]),
     (js ''responseTitle'', [0x631, 0x62F] @ js '' '' @ [0x627, 0x644, 0x645, 0x633, 0x627, 0x639, 0x62F] @ js '':''),
     (js ''uploading'', [0x23F3] @ js '' '' @ [0x62C, 0x627, 0x631, 0x64D] @ js '' '' @ [0x625, 0x631, 0x633, 0x627, 0x644] @ js '' '' @ [0x627, 0x644, 0x635, 0x648, 0x62A] @ js ''...''),
     (js ''uploaded'', [0x2705] @ js '' '' @ [0x62A, 0x645] @ js '' '' @ [0x625, 0x631, 0x633, 0x627, 0x644] @ js '' '' @ [0x627, 0x644, 0x635, 0x648, 0x62A]),
     (js ''uploadError'', [0x274C] @ js '' '' @ [0x62E, 0x637, 0x623] @ js '' '' @ [0x641, 0x64A] @ js '' '' @ [0x625, 0x631, 0x633, 0x627, 0x644] @ js '' '' @ [0x627, 0x644, 0x635, 0x648, 0x62A]),
     (js ''micNotSupported'', [0x627, 0x644, 0x645, 0x62A, 0x635, 0x641, 0x62D] @ js '' '' @ [0x644, 0x627] @ js '' '' @ [0x64A, 0x62F, 0x639, 0x645] @ js '' '' @ [0x62A, 0x633, 0x62C, 0x64A, 0x644] @ js '' '' @ [0x627, 0x644, 0x635, 0x648, 0x62A] @ js ''.''),
     (js ''recordingNotSupported'', [0x627, 0x644, 0x62A, 0x633, 0x62C, 0x64A, 0x644] @ js '' '' @ [0x63A, 0x64A, 0x631] @ js '' '' @ [0x645, 0x62F, 0x639, 0x648, 0x645] @ js '' '' @ [0x641, 0x64A] @ js '' '' @ [0x647, 0x630, 0x627] @ js '' '' @ [0x627, 0x644, 0x645, 0x62A, 0x635, 0x641, 0x62D] @ js ''.''),
     (js ''micAccessError'', [0x62A, 0x639, 0x630, 0x631] @ js '' '' @ [0x627, 0x644, 0x648, 0x635, 0x648, 0x644] @ js '' '' @ [0x625, 0x644, 0x649] @ js '' '' @ [0x627, 0x644, 0x645, 0x64A, 0x643, 0x631, 0x648, 0x641, 0x648, 0x646] @ js ''. '' @ [0x62A, 0x62D, 0x642, 0x642] @ js '' '' @ [0x645, 0x646] @ js '' '' @ [0x627, 0x644, 0x623, 0x630, 0x648, 0x646, 0x627, 0x62A] @ js '' '' @ [0x648, 0x627, 0x644, 0x62C, 0x647, 0x627, 0x632] @ js ''.''),
     (js ''recognitionNotSupported'', [0x627, 0x644, 0x62A, 0x639, 0x631, 0x641] @ js '' '' @ [0x639, 0x644, 0x649] @ js '' '' @ [0x627, 0x644, 0x635, 0x648, 0x62A] @ js '' '' @ [0x63A, 0x64A, 0x631] @ js '' '' @ [0x645, 0x62F, 0x639, 0x648, 0x645] @ js '' '' @ [0x641, 0x64A] @ js '' '' @ [0x647, 0x630, 0x627] @ js '' '' @ [0x627, 0x644, 0x645, 0x62A, 0x635, 0x641, 0x62D] @ js ''.''),
     (js ''feedbackEmpty'', [0x26A0, 0xFE0F] @ js '' '' @ [0x627, 0x643, 0x62A, 0x628] @ js '' '' @ [0x631, 0x633, 0x627, 0x644, 0x629] @ js '' '' @ [0x642, 0x628, 0x644] @ js '' '' @ [0x627, 0x644, 0x625, 0x631, 0x633, 0x627, 0x644] @ js ''.''),
     (js ''feedbackSent'', [0x62A, 0x645] @ js '' '' @ [0x625, 0x631, 0x633, 0x627, 0x644] @ js '' '' @ [0x627, 0x644, 0x645, 0x644, 0x627, 0x62D, 0x638, 0x627, 0x62A] @ js '' '' @ [0x628, 0x646, 0x62C, 0x627, 0x62D] @ js ''!''),
     (js ''feedbackError'', [0x26A0, 0xFE0F] @ js '' '' @ [0x62A, 0x639, 0x630, 0x631] @ js '' '' @ [0x625, 0x631, 0x633, 0x627, 0x644] @ js '' '' @ [0x627, 0x644, 0x645, 0x644, 0x627, 0x62D, 0x638, 0x627, 0x62A] @ js ''.''),
     (js ''assistantNotAvailable'', [0x644, 0x627] @ js '' '' @ [0x62A, 0x648, 0x62C, 0x62F] @ js '' '' @ [0x627, 0x633, 0x62A, 0x62C, 0x627, 0x628, 0x629] @ js ''.'')]"

definition tr_ru :: "(jsstring \<times> jsstring) list" where
  "tr_ru =
    [(js ''title'', [0x41C, 0x43E, 0x439] @ js '' '' @ [0x433, 0x43E, 0x43B, 0x43E, 0x441, 0x43E, 0x432, 0x43E, 0x439] @ js '' '' @ [0x43F, 0x43E, 0x43C, 0x43E, 0x449, 0x43D, 0x438, 0x43A]),
     (js ''placeholder'', [0x412, 0x432, 0x435, 0x434, 0x438, 0x442, 0x435] @ js '' '' @ [0x43A, 0x43E, 0x43C, 0x430, 0x43D, 0x434, 0x443]),
     (js ''sendText'', [0x41E, 0x442, 0x43F, 0x440, 0x430, 0x432, 0x438, 0x442, 0x44C] @ js '' '' @ [0x43A, 0x43E, 0x43C, 0x430, 0x43D, 0x434, 0x443]),
     (js ''speak'', [0x413, 0x43E, 0x432, 0x43E, 0x440, 0x438, 0x442, 0x44C]),
     (js ''viewHistory'', [0x41F, 0x440, 0x43E, 0x441, 0x43C, 0x43E, 0x442, 0x440, 0x435, 0x442, 0x44C] @ js '' '' @ [0x432, 0x441, 0x44E] @ js '' '' @ [0x431, 0x435, 0x441, 0x435, 0x434, 0x443]),
     (js ''feedbackTitle'', [0x41E, 0x442, 0x43F, 0x440, 0x430, 0x432, 0x438, 0x442, 0x44C] @ js '' '' @ [0x43E, 0x442, 0x437, 0x44B, 0x432]),
     (js ''feedbackPlaceholder'', [0x412, 0x432, 0x435, 0x434, 0x438, 0x442, 0x435] @ js '' '' @ [0x432, 0x430, 0x448] @ js '' '' @ [0x43E, 0x442, 0x437, 0x44B, 0x432] @ js ''...''),
     (js ''ratingLabel'', [0x41E, 0x446, 0x435, 0x43D, 0x43A, 0x430] @ js '':''),
     (js ''sendFeedback'', [0x41E, 0x442, 0x43F, 0x440, 0x430, 0x432, 0x438, 0x442, 0x44C] @ js '' '' @ [0x43E, 0x442, 0x437, 0x44B, 0x432]),
     (js ''recording'', [0xD83C, 0xDF99, 0xFE0F] @ js '' '' @ [0x417, 0x430, 0x43F, 0x438, 0x441, 0x44C] @ js ''...''),
     (js ''speakBtn'', [0xD83C, 0xDF99, 0xFE0F] @ js '' '' @ [0x413, 0x43E, 0x432, 0x43E, 0x440, 0x438, 0x442, 0x44C]),
     (js ''responseTitle'', [0x41E, 0x442, 0x432, 0x435, 0x442] @ js '' '' @ [0x43F, 0x43E, 0x43C, 0x43E, 0x449, 0x43D, 0x438, 0x43A, 0x430] @ js '':''),
     (js ''uploading'', [0x23F3] @ js '' '' @ [0x41E, 0x442, 0x43F, 0x440, 0x430, 0x432, 0x43A, 0x430] @ js '' '' @ [0x430, 0x443, 0x434, 0x438, 0x43E] @ js ''...''),
     (js ''uploaded'', [0x2705] @ js '' '' @ [0x410, 0x443, 0x434, 0x438, 0x43E] @ js '' '' @ [0x43E, 0x442, 0x43F, 0x440, 0x430, 0x432, 0x43B, 0x435, 0x43D, 0x43E]),
     (js ''uploadError'', [0x274C] @ js '' '' @ [0x41E, 0x448, 0x438, 0x431, 0x43A, 0x430] @ js '' '' @ [0x43F, 0x440, 0x438] @ js '' '' @ [0x43E, 0x442, 0x43F, 0x440, 0x430, 0x432, 0x43A, 0x435] @ js '' '' @ [0x430, 0x443, 0x434, 0x438, 0x43E]),
     (js ''micNotSupported'', [0x412, 0x430, 0x448] @ js '' '' @ [0x431, 0x440, 0x430, 0x443, 0x437, 0x435, 0x440] @ js '' '' @ [0x43D, 0x435] @ js '' '' @ [0x43F, 0x43E, 0x434, 0x434, 0x435, 0x440, 0x436, 0x438, 0x432, 0x430, 0x435, 0x442] @ js '' '' @ [0x437, 0x430, 0x43F, 0x438, 0x441, 0x44C] @ js '' '' @ [0x430, 0x443, 0x434, 0x438, 0x43E] @ js ''.''),
     (js ''recordingNotSupported'', [0x417, 0x430, 0x43F, 0x438, 0x441, 0x44C] @ js '' '' @ [0x43D, 0x435] @ js '' '' @ [0x43F, 0x43E, 0x434, 0x434, 0x435, 0x440, 0x436, 0x438, 0x432, 0x430, 0x435, 0x442, 0x441, 0x44F] @ js '' '' @ [0x432] @ js '' '' @ [0x44D, 0x442, 0x43E, 0x43C] @ js '' '' @ [0x431, 0x440, 0x430, 0x443, 0x437, 0x435, 0x440, 0x435] @ js ''.''),
     (js ''micAccessError'', [0x41D, 0x435] @ js '' '' @ [0x443, 0x434, 0x430, 0x43B, 0x43E, 0x441, 0x44C] @ js '' '' @ [0x43F, 0x43E, 0x43B, 0x443, 0x447, 0x438, 0x442, 0x44C] @ js '' '' @ [0x434, 0x43E, 0x441, 0x442, 0x443, 0x43F] @ js '' '' @ [0x43A] @ js '' '' @ [0x43C, 0x438, 0x43A, 0x440, 0x43E, 0x444, 0x43E, 0x43D, 0x443] @ js ''. '' @ [0x41F, 0x440, 0x43E, 0x432, 0x435, 0x440, 0x44C, 0x442, 0x435] @ js '' '' @ [0x440, 0x430, 0x437, 0x440, 0x435, 0x448, 0x435, 0x43D, 0x438, 0x44F] @ js '' '' @ [0x438] @ js '' '' @ [0x443, 0x441, 0x442, 0x440, 0x43E, 0x439, 0x441, 0x442, 0x432, 0x43E] @ js ''.''),
     (js ''recognitionNotSupported'', [0x420, 0x430, 0x441, 0x43F, 0x43E, 0x437, 0x43D, 0x430, 0x432, 0x430, 0x43D, 0x438, 0x435] @ js '' '' @ [0x433, 0x43E, 0x43B, 0x43E, 0x441, 0x430] @ js '' '' @ [0x43D, 0x435] @ js '' '' @ [0x43F, 0x43E, 0x434, 0x434, 0x435, 0x440, 0x436, 0x438, 0x432, 0x430, 0x435, 0x442, 0x441, 0x44F] @ js '' '' @ [0x432] @ js '' '' @ [0x44D, 0x442, 0x43E, 0x43C] @ js '' '' @ [0x431, 0x440, 0x430, 0x443, 0x437, 0x435, 0x440, 0x435] @ js ''.''),
     (js ''feedbackEmpty'', [0x26A0, 0xFE0F] @ js '' '' @ [0x41D, 0x430, 0x43F, 0x438, 0x448, 0x438, 0x442, 0x435] @ js '' '' @ [0x441, 0x43E, 0x43E, 0x431, 0x449, 0x435, 0x43D, 0x438, 0x435] @ js '' '' @ [0x43F, 0x435, 0x440, 0x435, 0x434] @ js '' '' @ [0x43E, 0x442, 0x43F, 0x440, 0x430, 0x432, 0x43A, 0x43E, 0x439] @ js ''.''),
     (js ''feedbackSent'', [0x41E, 0x442, 0x437, 0x44B, 0x432] @ js '' '' @ [0x443, 0x441, 0x43F, 0x435, 0x448, 0x43D, 0x43E] @ js '' '' @ [0x43E, 0x442, 0x43F, 0x440, 0x430, 0x432, 0x43B, 0x435, 0x43D] @ js ''!''),
     (js ''feedbackError'', [0x26A0, 0xFE0F] @ js '' '' @ [0x41D, 0x435] @ js '' '' @ [0x443, 0x434, 0x430, 0x43B, 0x43E, 0x441, 0x44C] @ js '' '' @ [0x43E, 0x442, 0x43F, 0x440, 0x430, 0x432, 0x438, 0x442, 0x44C] @ js '' '' @ [0x43E, 0x442, 0x437, 0x44B, 0x432] @ js ''.''),
     (js ''assistantNotAvailable'', [0x41D, 0x435, 0x442] @ js '' '' @ [0x43E, 0x442, 0x432, 0x435, 0x442, 0x430] @ js ''.'')]"
definition translations_tbl :: "(jsstring \<times> (jsstring \<times> jsstring) list) list" where
  "translations_tbl =
    [(js ''pt'', tr_pt), (js ''en'', tr_en), (js ''es'', tr_es), (js ''fr'', tr_fr),
     (js ''de'', tr_de), (js ''ar'', tr_ar), (js ''ru'', tr_ru)]"

text \<open>The language codes offered by the language selector.\<close>

definition supported_languages :: "jsstring list" where
  "supported_languages =
     [js ''pt'', js ''en'', js ''es'', js ''fr'', js ''de'', js ''ar'', js ''ru'']"

datatype js_error = TypeError

text \<open>
  An object literal inherits from \<open>Object.prototype\<close>: reading a name that is
  not one of its own properties yields the inherited member when
  \<open>Object.prototype\<close> has one of that name, and \<open>undefined\<close> otherwise. These
  are the standard names; each member is a function, or (for \<open>__proto__\<close>) the
  prototype object itself.
\<close>

definition object_prototype :: "jsstring list" where
  "object_prototype =
     [js ''constructor'', js ''__defineGetter__'', js ''__defineSetter__'',
      js ''hasOwnProperty'', js ''__lookupGetter__'', js ''__lookupSetter__'',
      js ''isPrototypeOf'', js ''propertyIsEnumerable'', js ''toString'', js ''valueOf'',
      js ''__proto__'', js ''toLocaleString'']"

text \<open>
  What a property read can yield: a string, a number, or a built-in function
  or object (named by the \<open>Object.prototype\<close> property that holds it). Only
  the empty string and zero are falsy.
\<close>

datatype js_value = JStr jsstring | JNum int | JBuiltin jsstring

definition is_truthy :: "js_value \<Rightarrow> bool" where
  "is_truthy v = (case v of JStr s \<Rightarrow> s \<noteq> [] | JNum n \<Rightarrow> n \<noteq> 0 | JBuiltin b \<Rightarrow> True)"

text \<open>\<open>tb[key]\<close> for a table \<open>tb\<close> of the literal; \<open>None\<close> is \<open>undefined\<close>.\<close>

definition table_get :: "(jsstring \<times> jsstring) list \<Rightarrow> jsstring \<Rightarrow> js_value option" where
  "table_get tb key =
     (case map_of tb key of
        Some v \<Rightarrow> Some (JStr v)
      | None \<Rightarrow> if key \<in> set object_prototype then Some (JBuiltin key) else None)"

text \<open>
  When \<open>lang\<close> names a member of \<open>Object.prototype\<close>, \<open>translations[lang]\<close> is
  that built-in and \<open>translations[lang][key]\<close> reads a property of it. What
  the built-ins hold is the platform's, so it is a parameter: \<open>reads m k\<close> is
  the outcome of reading \<open>k\<close> of the member \<open>m\<close>: a value, \<open>undefined\<close> or
  \<open>null\<close> (\<open>None\<close>), or a TypeError raised by an accessor.
\<close>

type_synonym prototype_reads = "jsstring \<Rightarrow> jsstring \<Rightarrow> js_error + js_value option"

text \<open>
  \<open>t(lang, key)\<close> is
  \<^verbatim>\<open>(translations[lang] && translations[lang][key]) || translations["en"][key] || key\<close>.
  Reading a property of \<open>undefined\<close> raises a TypeError; the only unguarded
  read is \<open>translations["en"][key]\<close>, evaluated when the first operand is
  falsy. \<open>default_entry\<close> is \<open>translations["en"][key] || key\<close>.
\<close>

definition default_entry :: "jsstring \<Rightarrow> js_error + js_value" where
  "default_entry key =
     (case map_of translations_tbl (js ''en'') of
        None \<Rightarrow> Inl TypeError
      | Some en \<Rightarrow>
          (case table_get en key of
             Some v \<Rightarrow> if is_truthy v then Inr v else Inr (JStr key)
           | None \<Rightarrow> Inr (JStr key)))"

definition t :: "prototype_reads \<Rightarrow> jsstring \<Rightarrow> jsstring \<Rightarrow> js_error + js_value" where
  "t reads lang key =
     (case map_of translations_tbl lang of
        Some tb \<Rightarrow>
          (case table_get tb key of
             Some v \<Rightarrow> if is_truthy v then Inr v else default_entry key
           | None \<Rightarrow> default_entry key)
      | None \<Rightarrow>
          if lang \<in> set object_prototype
          then (case reads lang key of
                  Inl e \<Rightarrow> Inl e
                | Inr None \<Rightarrow> default_entry key
                | Inr (Some v) \<Rightarrow> if is_truthy v then Inr v else default_entry key)
          else default_entry key)"

text \<open>
  The string \<open>t\<close> yields at the handlers' call sites. There the key is one of
  the literal keys of the tables, and no built-in has a property of such a
  name, so a read of one is \<open>undefined\<close>.
\<close>

definition tr :: "jsstring \<Rightarrow> jsstring \<Rightarrow> jsstring" where
  "tr lang key = (case t (\<lambda>m k. Inr None) lang key of Inr (JStr s) \<Rightarrow> s | _ \<Rightarrow> key)"

text \<open>
  The resolver as the specification words it: the entry of the language's
  table when present, otherwise the entry of the default language's table,
  otherwise the key.
\<close>

definition resolve_spec :: "jsstring \<Rightarrow> jsstring \<Rightarrow> jsstring" where
  "resolve_spec lang key =
     (let dflt = (case map_of tr_en key of Some v \<Rightarrow> v | None \<Rightarrow> key)
      in case map_of translations_tbl lang of
           None \<Rightarrow> dflt
         | Some tb \<Rightarrow> (case map_of tb key of Some v \<Rightarrow> v | None \<Rightarrow> dflt))"

section \<open>The conversation log and the response envelope\<close>

text \<open>One turn of the conversation: \<open>{ role, text }\<close>.\<close>

record exchange =
  role :: jsstring
  "text" :: jsstring

text \<open>
  An element of the \<open>actions\<close> state: an array (of strings), a plain object
  (its own string properties, in enumeration order), or anything else (\<open>null\<close>
  or a primitive).
\<close>

datatype action_item =
    ArrayItem "jsstring list"
  | ObjectItem "(jsstring \<times> jsstring) list"
  | OtherItem

text \<open>
  The \<open>actions\<close> field of a response body: a list, or a keyed mapping from
  label to URL (its own properties in the order \<open>Object.entries\<close> enumerates
  them).
\<close>

datatype actions_field =
    ActionList "action_item list"
  | ActionMap "(jsstring \<times> jsstring) list"

text \<open>
  The parsed JSON body of a response, read at the fields the component uses.
  A field is \<open>None\<close> when it is absent or \<open>null\<close>.
\<close>

record body =
  data_response :: "jsstring option"
  data_audio :: "jsstring option"
  data_input :: "jsstring option"
  data_actions :: "actions_field option"
  data_status :: "jsstring option"

text \<open>A recorded chunk (\<open>ev.data\<close>) and the blob assembled from the chunks.\<close>

record chunk =
  chunk_type :: jsstring
  chunk_data :: "8 word list"

record blob =
  blob_type :: jsstring
  blob_data :: "8 word list"

text \<open>
  The three requests the component sends:
  \<^item> \<open>POST /assistant/process\<close> with \<open>{ text_input, lang }\<close>;
  \<^item> \<open>POST /assistant/process/upload\<close> with the form fields \<open>file\<close> and \<open>lang\<close>;
  \<^item> \<open>POST /feedback/\<close> with \<open>{ user, message, rating, lang }\<close>.
\<close>

datatype request =
    ProcessRequest jsstring jsstring
  | UploadRequest blob jsstring
  | FeedbackRequest jsstring jsstring int jsstring

text \<open>
  What \<open>await fetch(...)\<close> followed by \<open>res.ok\<close> and \<open>await res.json()\<close>
  comes to:
  \<^item> \<open>NetworkError msg\<close>: \<open>fetch\<close> rejects;
  \<^item> \<open>HttpError status txt\<close>: \<open>res.ok\<close> is false; \<open>txt\<close> is the body text
    (empty when \<open>res.text()\<close> rejects), and the handler throws
    \<open>Error(`HTTP ${status} - ${txt}`)\<close>;
  \<^item> \<open>BadBody\<close>: \<open>res.json()\<close> rejects, or yields \<open>null\<close> so that the first
    field read throws;
  \<^item> \<open>OkJson d\<close>: the parsed body.
  The first three end in the handler's \<open>catch\<close> block.
\<close>

datatype fetch_outcome =
    NetworkError jsstring
  | HttpError nat jsstring
  | BadBody
  | OkJson body

definition failed :: "fetch_outcome \<Rightarrow> bool" where
  "failed r = (case r of OkJson d \<Rightarrow> False | _ \<Rightarrow> True)"

section \<open>Component state\<close>

datatype recorder_state = Inactive | Recording | Paused

text \<open>
  The handle in \<open>recognitionRef.current\<close>: its locale and whether it has been
  started and has not ended yet.
\<close>

record recognition =
  recog_lang :: jsstring
  recog_started :: bool

text \<open>
  The \<open>useState\<close> cells and the three refs of \<open>VoiceAssistant\<close>.
  \<open>recorders\<close> is the store of the \<open>MediaRecorder\<close> objects created so far,
  each with its \<open>state\<close> attribute; \<open>mediaRecorderRef\<close> holds the index of
  one of them. \<open>timers\<close> lists the delays (in ms) of the pending auto-stop
  timeouts, oldest first.
\<close>

record state =
  command :: jsstring
  response :: jsstring
  audioUrl :: jsstring
  actions :: "action_item list"
  history :: "exchange list"
  listening :: bool
  theme :: jsstring
  showWelcome :: bool
  showHistory :: bool
  feedbackMessage :: jsstring
  feedbackRating :: int
  feedbackStatus :: jsstring
  uploadStatus :: jsstring
  language :: jsstring
  recognitionRef :: "recognition option"
  mediaRecorderRef :: "nat option"
  audioChunksRef :: "chunk list"
  recorders :: "recorder_state list"
  timers :: "nat list"

text \<open>The initial values of the cells, for a given stored history.\<close>

definition initial_state :: "exchange list \<Rightarrow> state" where
  "initial_state h =
     \<lparr>command = [], response = [], audioUrl = [], actions = [], history = h,
      listening = False, theme = js ''dark-theme'', showWelcome = True,
      showHistory = False, feedbackMessage = [], feedbackRating = 0,
      feedbackStatus = [], uploadStatus = [], language = js ''pt'',
      recognitionRef = None, mediaRecorderRef = None, audioChunksRef = [],
      recorders = [], timers = []\<rparr>"

section \<open>Actions: normalisation and rendering\<close>

text \<open>
  \<^verbatim>\<open>Array.isArray(data.actions) ? data.actions : Object.entries(data.actions || {})\<close>
\<close>

definition normalize_actions :: "actions_field option \<Rightarrow> action_item list" where
  "normalize_actions a =
     (case a of
        Some (ActionList xs) \<Rightarrow> xs
      | Some (ActionMap kvs) \<Rightarrow> map (\<lambda>(k, v). ArrayItem [k, v]) kvs
      | None \<Rightarrow> [])"

text \<open>The decimal digits of a number, as template literals print it.\<close>

fun decimal :: "nat \<Rightarrow> jsstring" where
  "decimal n =
     (if n < 10 then [of_nat (48 + n)]
      else decimal (n div 10) @ [of_nat (48 + n mod 10)])"

declare decimal.simps [simp del]

text \<open>
  The body of \<open>actions.map((item, i) => ...)\<close>: the link text and the
  \<open>href\<close> of the list entry, or \<open>None\<close> where the callback returns \<open>null\<close>.
  An array of fewer than two elements is an object without the named
  properties.
\<close>

definition render_object :: "nat \<Rightarrow> (jsstring \<times> jsstring) list \<Rightarrow> jsstring \<times> jsstring" where
  "render_object i ps =
     (or_default
        (js_or (js_or (map_of ps (js ''label'')) (map_of ps (js ''title'')))
           (map_of ps (js ''name'')))
        (js ''Action '' @ decimal (i + 1)),
      or_default (js_or (map_of ps (js ''url'')) (map_of ps (js ''href''))) (js ''#''))"

definition render_item :: "nat \<Rightarrow> action_item \<Rightarrow> (jsstring \<times> jsstring) option" where
  "render_item i item =
     (case item of
        ArrayItem xs \<Rightarrow>
          (case xs of
             k # u # rest \<Rightarrow> Some (k, u)
           | _ \<Rightarrow> Some (render_object i []))
      | ObjectItem ps \<Rightarrow> Some (render_object i ps)
      | OtherItem \<Rightarrow> None)"

definition render_actions :: "action_item list \<Rightarrow> (jsstring \<times> jsstring) option list" where
  "render_actions xs = map (\<lambda>(i, item). render_item i item) (enumerate 0 xs)"

text \<open>
  The specification's words for an object element: the first of the named
  properties that is a non-empty string, else a default.
\<close>

fun first_truthy :: "jsstring option list \<Rightarrow> jsstring \<Rightarrow> jsstring" where
  "first_truthy [] d = d"
| "first_truthy (None # xs) d = first_truthy xs d"
| "first_truthy (Some s # xs) d = (if s \<noteq> [] then s else first_truthy xs d)"

section \<open>Text commands: \<open>handleSendCommand\<close>\<close>

definition connection_error :: jsstring where
  "connection_error = js ''Erro de conex'' @ [0xE3] @ js ''o com o servidor.''"

text \<open>
  A handler takes the remote side as a function from the request to the
  outcome of the call, and returns the new state with the requests it sent.
  The early \<open>return\<close> stands before the \<open>try\<close>, so the \<open>finally\<close> block
  (which clears the command field) runs only once the request is under way.
  The updates before and after the \<open>await\<close> are composed into one step; the
  history updates are functional (\<open>prev => [...prev, x]\<close>), so each appends to
  the log as it is when it runs.
\<close>

definition handleSendCommand :: "(request \<Rightarrow> fetch_outcome) \<Rightarrow> state \<Rightarrow> state \<times> request list" where
  "handleSendCommand fetch s =
     (let txt = trim (command s) in
      if txt = [] then (s, [])
      else
        let s1 = s\<lparr>history := history s @ [\<lparr>role = js ''user'', text = txt\<rparr>],
                   response := [], audioUrl := []\<rparr>;
            req = ProcessRequest txt (language s)
        in case fetch req of
             OkJson d \<Rightarrow>
               (let reply = or_default (data_response d)
                              (tr (language s) (js ''assistantNotAvailable''))
                in (s1\<lparr>response := reply,
                       audioUrl := or_default (data_audio d) [],
                       actions := normalize_actions (data_actions d),
                       history := history s1 @ [\<lparr>role = js ''assistant'', text = reply\<rparr>],
                       command := []\<rparr>, [req]))
           | _ \<Rightarrow>
               (s1\<lparr>response := tr (language s) (js ''assistantNotAvailable''),
                   history := history s1 @ [\<lparr>role = js ''error'', text = connection_error\<rparr>],
                   command := []\<rparr>, [req]))"

section \<open>Capture: recognition, recording, the auto-stop timer\<close>

text \<open>
  \<open>recognition.start()\<close> throws when the recognition has already been
  started; the handler catches it.
\<close>

definition startLocalRecognition :: "state \<Rightarrow> state" where
  "startLocalRecognition s =
     (case recognitionRef s of
        None \<Rightarrow> s\<lparr>response := tr (language s) (js ''recognitionNotSupported'')\<rparr>
      | Some r \<Rightarrow>
          if recog_started r
          then s\<lparr>response := tr (language s) (js ''recognitionNotSupported'')\<rparr>
          else s\<lparr>recognitionRef := Some (r\<lparr>recog_started := True\<rparr>)\<rparr>)"

text \<open>
  What the browser offers when \<open>startRecording\<close> runs: whether
  \<open>navigator.mediaDevices.getUserMedia\<close> and \<open>MediaRecorder\<close> exist, whether
  \<open>getUserMedia\<close> resolves, whether each of the two constructor calls
  succeeds, and whether \<open>recorder.start()\<close> succeeds.
\<close>

record env =
  has_getUserMedia :: bool
  has_MediaRecorder :: bool
  getUserMedia_ok :: bool
  ctor_options_ok :: bool
  ctor_plain_ok :: bool
  start_ok :: bool

definition startRecording :: "env \<Rightarrow> state \<Rightarrow> state" where
  "startRecording e s =
     (let s1 = s\<lparr>audioChunksRef := [], uploadStatus := js ''idle'', response := []\<rparr> in
      if \<not> has_getUserMedia e
      then s1\<lparr>response := tr (language s) (js ''micNotSupported'')\<rparr>
      else if \<not> has_MediaRecorder e
      then s1\<lparr>response := tr (language s) (js ''recordingNotSupported'')\<rparr>
      else if \<not> getUserMedia_ok e
      then s1\<lparr>response := tr (language s) (js ''micAccessError'')\<rparr>
      else if \<not> ctor_options_ok e \<and> \<not> ctor_plain_ok e
      then s1\<lparr>response := tr (language s) (js ''recordingNotSupported'')\<rparr>
      else
        let new = length (recorders s1);
            s2 = s1\<lparr>recorders := recorders s1 @ [Inactive], mediaRecorderRef := Some new\<rparr>
        in if \<not> start_ok e
           then s2\<lparr>response := tr (language s) (js ''micAccessError'')\<rparr>
           else s2\<lparr>recorders := (recorders s2)[new := Recording],
                   timers := timers s2 @ [5000]\<rparr>)"

text \<open>The mic button: recognition when a handle is bound, recording otherwise.\<close>

definition micButton :: "env \<Rightarrow> state \<Rightarrow> state" where
  "micButton e s =
     (if recognitionRef s \<noteq> None then startLocalRecognition s else startRecording e s)"

text \<open>The recorder's \<open>onstart\<close>, \<open>ondataavailable\<close> and \<open>onerror\<close> handlers.\<close>

definition recorder_onstart :: "state \<Rightarrow> state" where
  "recorder_onstart s = s\<lparr>listening := True, uploadStatus := js ''idle''\<rparr>"

definition recorder_ondataavailable :: "chunk option \<Rightarrow> state \<Rightarrow> state" where
  "recorder_ondataavailable ev s =
     (case ev of
        Some c \<Rightarrow>
          if length (chunk_data c) > 0 then s\<lparr>audioChunksRef := audioChunksRef s @ [c]\<rparr>
          else s
      | None \<Rightarrow> s)"

definition recorder_onerror :: "jsstring \<Rightarrow> state \<Rightarrow> state" where
  "recorder_onerror lang s =
     s\<lparr>response := tr lang (js ''uploadError''), listening := False\<rparr>"

text \<open>
  The callback of \<open>setTimeout(..., 5000)\<close>. It reads \<open>mediaRecorderRef.current\<close>
  when it runs. \<open>stop()\<close> sets the recorder's state to inactive; under the
  guard it does not throw.
\<close>

definition autoStop :: "state \<Rightarrow> state" where
  "autoStop s =
     (case mediaRecorderRef s of
        None \<Rightarrow> s
      | Some i \<Rightarrow>
          if i < length (recorders s) \<and> recorders s ! i \<noteq> Inactive
          then s\<lparr>recorders := (recorders s)[i := Inactive]\<rparr>
          else s)"

text \<open>The oldest pending timeout fires: it leaves the queue and its callback runs.\<close>

definition timer_fires :: "state \<Rightarrow> state" where
  "timer_fires s =
     (case timers s of
        [] \<Rightarrow> s
      | d # ds \<Rightarrow> autoStop (s\<lparr>timers := ds\<rparr>))"

section \<open>Audio upload: the recorder's \<open>onstop\<close> handler\<close>

definition make_blob :: "chunk list \<Rightarrow> blob" where
  "make_blob cs =
     \<lparr>blob_type = (case cs of
                     [] \<Rightarrow> js ''audio/webm''
                   | c # rest \<Rightarrow> if chunk_type c \<noteq> [] then chunk_type c else js ''audio/webm''),
      blob_data = concat (map chunk_data cs)\<rparr>"

text \<open>
  \<open>createObjectURL\<close> is the browser's; \<open>lang\<close> is the language the handler's
  closure captured when \<open>startRecording\<close> ran.
\<close>

definition recorder_onstop ::
  "(blob \<Rightarrow> jsstring) \<Rightarrow> (request \<Rightarrow> fetch_outcome) \<Rightarrow> jsstring \<Rightarrow> state \<Rightarrow> state \<times> request list" where
  "recorder_onstop createObjectURL fetch lang s =
     (let blob = make_blob (audioChunksRef s);
          s1 = s\<lparr>listening := False, audioUrl := createObjectURL blob,
                 uploadStatus := js ''uploading''\<rparr>;
          req = UploadRequest blob lang
      in case fetch req of
           OkJson d \<Rightarrow>
             (let s2 = (case data_audio d of
                          Some a \<Rightarrow> if a \<noteq> [] then s1\<lparr>audioUrl := a\<rparr> else s1
                        | None \<Rightarrow> s1);
                  s3 = (case data_response d of
                          Some r \<Rightarrow>
                            if r \<noteq> []
                            then s2\<lparr>response := r,
                                    history := history s2 @ [\<lparr>role = js ''assistant'', text = r\<rparr>]\<rparr>
                            else s2
                        | None \<Rightarrow> s2);
                  s4 = (case data_input d of
                          Some i \<Rightarrow>
                            if i \<noteq> []
                            then s3\<lparr>history := history s3 @ [\<lparr>role = js ''user'', text = i\<rparr>]\<rparr>
                            else s3
                        | None \<Rightarrow> s3);
                  s5 = (case data_actions d of
                          Some a \<Rightarrow> s4\<lparr>actions := normalize_actions (Some a)\<rparr>
                        | None \<Rightarrow> s4)
              in (s5\<lparr>uploadStatus := js ''done''\<rparr>, [req]))
         | _ \<Rightarrow>
             (s1\<lparr>uploadStatus := js ''error'', response := tr lang (js ''uploadError''),
                 history := history s1 @ [\<lparr>role = js ''error'', text = connection_error\<rparr>]\<rparr>,
              [req]))"

section \<open>Feedback: \<open>handleSendFeedback\<close>\<close>

definition handleSendFeedback :: "(request \<Rightarrow> fetch_outcome) \<Rightarrow> state \<Rightarrow> state \<times> request list" where
  "handleSendFeedback fetch s =
     (if trim (feedbackMessage s) = []
      then (s\<lparr>feedbackStatus := tr (language s) (js ''feedbackEmpty'')\<rparr>, [])
      else
        let req = FeedbackRequest (js ''Rogerio'') (feedbackMessage s) (feedbackRating s)
                    (language s)
        in case fetch req of
             OkJson d \<Rightarrow>
               (s\<lparr>feedbackStatus := or_default (data_status d)
                                       (tr (language s) (js ''feedbackSent'')),
                  feedbackMessage := [], feedbackRating := 0\<rparr>, [req])
           | _ \<Rightarrow> (s\<lparr>feedbackStatus := tr (language s) (js ''feedbackError'')\<rparr>, [req]))"

section \<open>Persistence: \<open>JSON.stringify\<close>, \<open>JSON.parse\<close> and \<open>localStorage\<close>\<close>

text \<open>
  The history is stored as \<open>JSON.stringify(history)\<close>: an array of objects
  with the string properties \<open>role\<close> and \<open>text\<close>, in that order, without
  white space. A string is serialized as ECMAScript's \<open>QuoteJSONString\<close>
  does: the two-character escapes for backspace, tab, line feed, form feed,
  carriage return, the double quote and the backslash; \<open>\\uXXXX\<close> with
  lower-case hexadecimal digits for the other code units below \<open>0x20\<close> and
  for a surrogate that is not part of a pair; every other code unit as it is.
\<close>

definition hex_digit :: "nat \<Rightarrow> 16 word" where
  "hex_digit d = of_nat (if d < 10 then 48 + d else 87 + d)"

definition unicode_escape :: "16 word \<Rightarrow> jsstring" where
  "unicode_escape c =
     (let n = unat c
      in [0x5C, 0x75, hex_digit (n div 4096), hex_digit (n div 256 mod 16),
          hex_digit (n div 16 mod 16), hex_digit (n mod 16)])"

definition is_lead :: "16 word \<Rightarrow> bool" where
  "is_lead c \<longleftrightarrow> 0xD800 \<le> c \<and> c \<le> 0xDBFF"

definition is_trail :: "16 word \<Rightarrow> bool" where
  "is_trail c \<longleftrightarrow> 0xDC00 \<le> c \<and> c \<le> 0xDFFF"

definition quote_unit :: "16 word \<Rightarrow> jsstring" where
  "quote_unit c =
     (if c = 0x08 then [0x5C, 0x62]
      else if c = 0x09 then [0x5C, 0x74]
      else if c = 0x0A then [0x5C, 0x6E]
      else if c = 0x0C then [0x5C, 0x66]
      else if c = 0x0D then [0x5C, 0x72]
      else if c = 0x22 then [0x5C, 0x22]
      else if c = 0x5C then [0x5C, 0x5C]
      else if c < 0x20 \<or> is_lead c \<or> is_trail c then unicode_escape c
      else [c])"

fun quote_units :: "jsstring \<Rightarrow> jsstring" where
  "quote_units [] = []"
| "quote_units [c] = quote_unit c"
| "quote_units (c # d # cs) =
     (if is_lead c \<and> is_trail d then c # d # quote_units cs
      else quote_unit c @ quote_units (d # cs))"

definition QuoteJSONString :: "jsstring \<Rightarrow> jsstring" where
  "QuoteJSONString s = [0x22] @ quote_units s @ [0x22]"

definition stringify_exchange :: "exchange \<Rightarrow> jsstring" where
  "stringify_exchange e =
     [0x7B] @ QuoteJSONString (js ''role'') @ [0x3A] @ QuoteJSONString (role e) @ [0x2C]
       @ QuoteJSONString (js ''text'') @ [0x3A] @ QuoteJSONString (text e) @ [0x7D]"

fun join_comma :: "jsstring list \<Rightarrow> jsstring" where
  "join_comma [] = []"
| "join_comma [x] = x"
| "join_comma (x # y # ys) = x @ [0x2C] @ join_comma (y # ys)"

definition JSON_stringify :: "exchange list \<Rightarrow> jsstring" where
  "JSON_stringify h = [0x5B] @ join_comma (map stringify_exchange h) @ [0x5D]"

text \<open>
  \<open>JSON.parse\<close>, on texts of the stored layout: an array of
  \<open>{"role": string, "text": string}\<close> objects. A string may use every escape
  of the JSON grammar and no raw code unit below \<open>0x20\<close>. \<open>None\<close> stands for
  a \<open>SyntaxError\<close> and for a text outside this layout.
\<close>

definition hex_value :: "16 word \<Rightarrow> nat option" where
  "hex_value c =
     (let n = unat c
      in if 48 \<le> n \<and> n \<le> 57 then Some (n - 48)
         else if 97 \<le> n \<and> n \<le> 102 then Some (n - 87)
         else if 65 \<le> n \<and> n \<le> 70 then Some (n - 55)
         else None)"

definition unescape :: "16 word \<Rightarrow> 16 word option" where
  "unescape e =
     (if e = 0x22 then Some 0x22
      else if e = 0x5C then Some 0x5C
      else if e = 0x2F then Some 0x2F
      else if e = 0x62 then Some 0x08
      else if e = 0x66 then Some 0x0C
      else if e = 0x6E then Some 0x0A
      else if e = 0x72 then Some 0x0D
      else if e = 0x74 then Some 0x09
      else None)"

definition hex4 :: "16 word \<Rightarrow> 16 word \<Rightarrow> 16 word \<Rightarrow> 16 word \<Rightarrow> 16 word option" where
  "hex4 h1 h2 h3 h4 =
     do {
       a \<leftarrow> hex_value h1;
       b \<leftarrow> hex_value h2;
       c \<leftarrow> hex_value h3;
       d \<leftarrow> hex_value h4;
       Some (of_nat (((a * 16 + b) * 16 + c) * 16 + d))
     }"

fun parse_string_tail :: "jsstring \<Rightarrow> (jsstring \<times> jsstring) option" where
  "parse_string_tail [] = None"
| "parse_string_tail (c # cs) =
     (if c = 0x22 then Some ([], cs)
      else if c = 0x5C then
        (case cs of
           [] \<Rightarrow> None
         | e # es \<Rightarrow>
             if e = 0x75 then
               (case es of
                  h1 # h2 # h3 # h4 # rest \<Rightarrow>
                    (case hex4 h1 h2 h3 h4 of
                       None \<Rightarrow> None
                     | Some u \<Rightarrow> map_option (\<lambda>(s, r). (u # s, r)) (parse_string_tail rest))
                | _ \<Rightarrow> None)
             else
               (case unescape e of
                  None \<Rightarrow> None
                | Some u \<Rightarrow> map_option (\<lambda>(s, r). (u # s, r)) (parse_string_tail es)))
      else if c < 0x20 then None
      else map_option (\<lambda>(s, r). (c # s, r)) (parse_string_tail cs))"

definition parse_string :: "jsstring \<Rightarrow> (jsstring \<times> jsstring) option" where
  "parse_string s =
     (case s of
        [] \<Rightarrow> None
      | c # cs \<Rightarrow> if c = 0x22 then parse_string_tail cs else None)"

definition expect :: "jsstring \<Rightarrow> jsstring \<Rightarrow> jsstring option" where
  "expect p s = (if take (length p) s = p then Some (drop (length p) s) else None)"

definition parse_exchange :: "jsstring \<Rightarrow> (exchange \<times> jsstring) option" where
  "parse_exchange s =
     do {
       s1 \<leftarrow> expect ([0x7B, 0x22] @ js ''role'' @ [0x22, 0x3A]) s;
       (r, s2) \<leftarrow> parse_string s1;
       s3 \<leftarrow> expect ([0x2C, 0x22] @ js ''text'' @ [0x22, 0x3A]) s2;
       (x, s4) \<leftarrow> parse_string s3;
       s5 \<leftarrow> expect [0x7D] s4;
       Some (\<lparr>role = r, text = x\<rparr>, s5)
     }"

text \<open>Each parser consumes input, so the loop over the array elements ends.\<close>

lemma parse_string_tail_shorter:
  "parse_string_tail s = Some (x, r) \<Longrightarrow> length r < length s"
proof (induction s arbitrary: x r rule: parse_string_tail.induct)
  case 1
  then show ?case
    by simp
next
  case (2 c cs)
  then show ?case
    by (auto split: if_splits list.splits option.splits) fastforce+
qed

lemma parse_string_shorter: "parse_string s = Some (x, r) \<Longrightarrow> length r < length s"
  by (auto simp: parse_string_def split: list.splits if_splits
      dest!: parse_string_tail_shorter)

lemma expect_shorter: "expect p s = Some r \<Longrightarrow> length r \<le> length s"
  by (auto simp: expect_def split: if_splits)

lemma parse_exchange_shorter:
  "parse_exchange s = Some (e, r) \<Longrightarrow> length r < length s"
  by (auto simp: parse_exchange_def split: Option.bind_splits
      dest!: parse_string_shorter expect_shorter)

function parse_rest :: "jsstring \<Rightarrow> exchange list option" where
  "parse_rest s =
     (case s of
        [] \<Rightarrow> None
      | c # cs \<Rightarrow>
          if c = 0x5D then (if cs = [] then Some [] else None)
          else if c = 0x2C then
            (case parse_exchange cs of
               None \<Rightarrow> None
             | Some (e, rest) \<Rightarrow> map_option (Cons e) (parse_rest rest))
          else None)"
  by pat_completeness auto
termination
  by (relation "measure length") (auto dest!: parse_exchange_shorter)

declare parse_rest.simps [simp del]

declare parse_string_tail.simps [simp del]

definition JSON_parse :: "jsstring \<Rightarrow> exchange list option" where
  "JSON_parse s =
     (case s of
        [] \<Rightarrow> None
      | c # cs \<Rightarrow>
          if c \<noteq> 0x5B then None
          else
            (case cs of
               [] \<Rightarrow> None
             | d # ds \<Rightarrow>
                 if d = 0x5D then (if ds = [] then Some [] else None)
                 else
                   (case parse_exchange cs of
                      None \<Rightarrow> None
                    | Some (e, rest) \<Rightarrow> map_option (Cons e) (parse_rest rest))))"

text \<open>
  \<open>localStorage\<close> maps keys to strings. The effect on \<open>[history]\<close> writes
  the serialized history under the key \<open>voiceAssistantHistory\<close>; the
  initializer of the \<open>history\<close> cell reads it back: \<open>saved ? JSON.parse(saved) : []\<close>.
  \<open>mount\<close> is the component's first state for a given storage.
\<close>

type_synonym storage = "jsstring \<rightharpoonup> jsstring"

definition history_key :: jsstring where
  "history_key = js ''voiceAssistantHistory''"

definition persist_history :: "exchange list \<Rightarrow> storage \<Rightarrow> storage" where
  "persist_history h st = st(history_key \<mapsto> JSON_stringify h)"

definition load_history :: "storage \<Rightarrow> exchange list option" where
  "load_history st =
     (case st history_key of
        None \<Rightarrow> Some []
      | Some saved \<Rightarrow> if saved \<noteq> [] then JSON_parse saved else Some [])"

definition mount :: "storage \<Rightarrow> state option" where
  "mount st = map_option initial_state (load_history st)"

section \<open>Example inputs\<close>

text \<open>A browser with every capture capability, and three response bodies.\<close>

definition browser_ok :: env where
  "browser_ok =
     \<lparr>has_getUserMedia = True, has_MediaRecorder = True, getUserMedia_ok = True,
      ctor_options_ok = True, ctor_plain_ok = True, start_ok = True\<rparr>"

definition body_empty :: body where
  "body_empty =
     \<lparr>data_response = None, data_audio = None, data_input = None, data_actions = None,
      data_status = None\<rparr>"

definition body_R :: body where
  "body_R =
     body_empty\<lparr>data_response := Some (js ''R''),
       data_actions := Some (ActionMap [(js ''Play'', js ''http://x'')])\<rparr>"

definition body_R_hi :: body where
  "body_R_hi = body_R\<lparr>data_input := Some (js ''hi'')\<rparr>"

text \<open>A recorded chunk, and a fragment of the platform: \<open>Object.name\<close> is \<open>"Object"\<close>.\<close>

definition chunk_example :: chunk where
  "chunk_example = \<lparr>chunk_type = js ''audio/webm'', chunk_data = [0x1A, 0x45, 0xDF, 0xA3]\<rparr>"

definition reads_example :: prototype_reads where
  "reads_example m k =
     (if m = js ''constructor'' \<and> k = js ''name'' then Inr (Some (JStr (js ''Object'')))
      else Inr None)"

section \<open>Properties of the localization resolver\<close>

lemma js_Nil_conv: "js s = [] \<longleftrightarrow> s = []"
  by (simp add: js_def)

lemma translations_en: "map_of translations_tbl (js ''en'') = Some tr_en"
  by (simp add: translations_tbl_def js_def)

text \<open>No entry of any table is the empty string, so a present entry is truthy.\<close>

lemma tables_truthy:
  "list_all (\<lambda>(l, tb). list_all (\<lambda>(k, v). v \<noteq> []) tb) translations_tbl"
  unfolding translations_tbl_def tr_pt_def tr_en_def tr_es_def tr_fr_def tr_de_def
    tr_ar_def tr_ru_def
  by (simp add: js_Nil_conv)

lemma table_entry_truthy:
  assumes "map_of translations_tbl lang = Some tb" and "map_of tb key = Some v"
  shows "v \<noteq> []"
proof -
  from assms(1) have "(lang, tb) \<in> set translations_tbl"
    by (rule map_of_SomeD)
  with tables_truthy have "list_all (\<lambda>(k, v). v \<noteq> []) tb"
    by (auto simp: list_all_iff)
  moreover from assms(2) have "(key, v) \<in> set tb"
    by (rule map_of_SomeD)
  ultimately show ?thesis
    by (auto simp: list_all_iff)
qed

lemma en_entry_truthy: "map_of tr_en key = Some v \<Longrightarrow> v \<noteq> []"
  using table_entry_truthy [OF translations_en] by blast

text \<open>Every table has the keys of the English one, in the same order.\<close>

lemma en_keys:
  "map fst tr_en =
     [js ''title'', js ''placeholder'', js ''sendText'', js ''speak'', js ''viewHistory'',
      js ''feedbackTitle'', js ''feedbackPlaceholder'', js ''ratingLabel'', js ''sendFeedback'',
      js ''recording'', js ''speakBtn'', js ''responseTitle'', js ''uploading'', js ''uploaded'',
      js ''uploadError'', js ''micNotSupported'', js ''recordingNotSupported'',
      js ''micAccessError'', js ''recognitionNotSupported'', js ''feedbackEmpty'',
      js ''feedbackSent'', js ''feedbackError'', js ''assistantNotAvailable'']"
  by (simp add: tr_en_def)

lemma same_keys:
  "map fst tr_pt = map fst tr_en" "map fst tr_es = map fst tr_en"
  "map fst tr_fr = map fst tr_en" "map fst tr_de = map fst tr_en"
  "map fst tr_ar = map fst tr_en" "map fst tr_ru = map fst tr_en"
  by (simp_all add: tr_pt_def tr_en_def tr_es_def tr_fr_def tr_de_def tr_ar_def tr_ru_def)

lemma table_keys:
  assumes "map_of translations_tbl lang = Some tb"
  shows "map fst tb = map fst tr_en"
proof -
  from assms have "(lang, tb) \<in> set translations_tbl"
    by (rule map_of_SomeD)
  then show ?thesis
    unfolding translations_tbl_def by (auto simp: same_keys)
qed

lemma supported_table:
  assumes "lang \<in> set supported_languages"
  shows "\<exists>tb. map_of translations_tbl lang = Some tb"
  using assms unfolding supported_languages_def translations_tbl_def
  by (auto simp: js_def)

text \<open>No key of the tables is the name of an inherited property.\<close>

lemma en_keys_plain: "set (map fst tr_en) \<inter> set object_prototype = {}"
  unfolding en_keys object_prototype_def by (simp add: js_def)

lemma inherited_not_own:
  assumes "map_of translations_tbl lang = Some tb" and "key \<in> set object_prototype"
  shows "map_of tb key = None"
proof -
  from assms(2) en_keys_plain have "key \<notin> set (map fst tr_en)"
    by blast
  with table_keys [OF assms(1)] have "key \<notin> fst ` set tb"
    by (metis set_map)
  then show ?thesis
    by (simp add: map_of_eq_None_iff)
qed

lemma default_entry_plain:
  assumes "key \<notin> set object_prototype"
  shows "default_entry key = Inr (JStr (case map_of tr_en key of Some v \<Rightarrow> v | None \<Rightarrow> key))"
  using assms
  by (auto simp: default_entry_def translations_en table_get_def is_truthy_def
      split: option.splits dest: en_entry_truthy)

lemma default_entry_inherited:
  assumes "key \<in> set object_prototype"
  shows "default_entry key = Inr (JBuiltin key)"
  using assms inherited_not_own [OF translations_en assms]
  by (simp add: default_entry_def translations_en table_get_def is_truthy_def)

text \<open>Where the own properties decide, \<open>t\<close> is the resolver of the specification.\<close>

lemma t_plain:
  assumes "lang \<notin> set object_prototype" and "key \<notin> set object_prototype"
  shows "t reads lang key = Inr (JStr (resolve_spec lang key))"
proof (cases "map_of translations_tbl lang")
  case None
  with assms show ?thesis
    by (simp add: t_def resolve_spec_def default_entry_plain)
next
  case (Some tb)
  show ?thesis
  proof (cases "map_of tb key")
    case None
    with Some assms show ?thesis
      by (simp add: t_def resolve_spec_def table_get_def default_entry_plain)
  next
    case (Some v)
    with \<open>map_of translations_tbl lang = Some tb\<close> have "v \<noteq> []"
      by (rule table_entry_truthy)
    with Some \<open>map_of translations_tbl lang = Some tb\<close> show ?thesis
      by (simp add: t_def resolve_spec_def table_get_def is_truthy_def)
  qed
qed

text \<open>
  For a key that names an inherited property, \<open>t\<close> yields the inherited
  member, whatever the language (unless reading a built-in decides otherwise).
\<close>

lemma t_inherited_key:
  assumes "lang \<notin> set object_prototype" and "key \<in> set object_prototype"
  shows "t reads lang key = Inr (JBuiltin key)"
proof (cases "map_of translations_tbl lang")
  case None
  with assms show ?thesis
    by (simp add: t_def default_entry_inherited)
next
  case (Some tb)
  with assms inherited_not_own [OF Some assms(2)] show ?thesis
    by (simp add: t_def table_get_def is_truthy_def)
qed

text \<open>A TypeError raised while reading a built-in leaves \<open>t\<close>.\<close>

lemma t_raises:
  assumes "map_of translations_tbl lang = None" and "lang \<in> set object_prototype"
    and "reads lang key = Inl e"
  shows "t reads lang key = Inl e"
  using assms by (simp add: t_def)

text \<open>At every language and key, \<open>tr\<close> is the resolver of the specification.\<close>

lemma tr_resolves: "tr lang key = resolve_spec lang key"
proof (cases "key \<in> set object_prototype")
  case False
  then have d: "default_entry key =
      Inr (JStr (case map_of tr_en key of Some v \<Rightarrow> v | None \<Rightarrow> key))"
    by (rule default_entry_plain)
  show ?thesis
  proof (cases "map_of translations_tbl lang")
    case None
    then show ?thesis
      by (simp add: tr_def t_def resolve_spec_def d)
  next
    case (Some tb)
    show ?thesis
    proof (cases "map_of tb key")
      case None
      with Some False show ?thesis
        by (simp add: tr_def t_def resolve_spec_def table_get_def d)
    next
      case (Some v)
      with \<open>map_of translations_tbl lang = Some tb\<close> have "v \<noteq> []"
        by (rule table_entry_truthy)
      with Some \<open>map_of translations_tbl lang = Some tb\<close> show ?thesis
        by (simp add: tr_def t_def resolve_spec_def table_get_def is_truthy_def)
    qed
  qed
next
  case True
  then have d: "default_entry key = Inr (JBuiltin key)"
    by (rule default_entry_inherited)
  from True have e: "map_of tr_en key = None"
    by (rule inherited_not_own [OF translations_en])
  show ?thesis
  proof (cases "map_of translations_tbl lang")
    case None
    then show ?thesis
      by (simp add: tr_def t_def resolve_spec_def d e)
  next
    case (Some tb)
    with True inherited_not_own [OF Some True] show ?thesis
      by (simp add: tr_def t_def resolve_spec_def table_get_def is_truthy_def e)
  qed
qed

text \<open>
  Claim C4, as stated: for every language code and key, \<open>t\<close> returns the
  entry of the language's table, else the entry of the default table, else
  the key. It fails at the names an object literal inherits: for the key
  \<open>constructor\<close> the result is the inherited function, not the key; for the
  language \<open>constructor\<close> and the key \<open>name\<close> it is the name of that function.
\<close>

theorem inherited_name_counterexample:
  "t reads_example (js ''pt'') (js ''constructor'') = Inr (JBuiltin (js ''constructor'')) \<and>
   resolve_spec (js ''pt'') (js ''constructor'') = js ''constructor'' \<and>
   t reads_example (js ''constructor'') (js ''name'') = Inr (JStr (js ''Object'')) \<and>
   resolve_spec (js ''constructor'') (js ''name'') = js ''name''"
proof -
  have p: "js ''pt'' \<notin> set object_prototype" "js ''constructor'' \<in> set object_prototype"
    "js ''name'' \<notin> set object_prototype"
    by (simp_all add: object_prototype_def js_def)
  have n: "map_of translations_tbl (js ''constructor'') = None"
    by (simp add: translations_tbl_def js_def)
  have k: "js ''name'' \<notin> set (map fst tr_en)"
    unfolding en_keys by (simp add: js_def)
  then have m: "map_of tr_en (js ''name'') = None"
    by (simp add: map_of_eq_None_iff)
  have 1: "t reads_example (js ''pt'') (js ''constructor'') = Inr (JBuiltin (js ''constructor''))"
    using p by (simp add: t_inherited_key)
  have 2: "resolve_spec (js ''pt'') (js ''constructor'') = js ''constructor''"
    using tr_resolves [of "js ''pt''" "js ''constructor''"] 1
    by (simp add: tr_def t_inherited_key p)
  have 3: "t reads_example (js ''constructor'') (js ''name'') = Inr (JStr (js ''Object''))"
    using p n by (simp add: t_def reads_example_def is_truthy_def js_Nil_conv)
  have 4: "resolve_spec (js ''constructor'') (js ''name'') = js ''name''"
    using n m by (simp add: resolve_spec_def)
  from 1 2 3 4 show ?thesis
    by blast
qed

text \<open>
  Claim C4, amended. For every language code and key, neither of which is the
  name of a property inherited from \<open>Object.prototype\<close>, \<open>t\<close> returns the
  entry of that language's table when there is one, otherwise the entry of
  the default (English) table, otherwise the key itself, and it does not
  raise. For every supported language and every key of the default table the
  result is the entry of that language's own table, and it is not the empty
  string.
\<close>

theorem t_resolves:
  "(lang \<notin> set object_prototype \<and> key \<notin> set object_prototype \<longrightarrow>
      t reads lang key = Inr (JStr (resolve_spec lang key))) \<and>
   (\<forall>lang \<in> set supported_languages. \<forall>key \<in> fst ` set tr_en.
      \<exists>tb v. map_of translations_tbl lang = Some tb \<and> map_of tb key = Some v \<and>
        v \<noteq> [] \<and> t reads lang key = Inr (JStr v))"
proof (intro conjI impI ballI)
  assume "lang \<notin> set object_prototype \<and> key \<notin> set object_prototype"
  then show "t reads lang key = Inr (JStr (resolve_spec lang key))"
    by (simp add: t_plain)
next
  fix lang key
  assume l: "lang \<in> set supported_languages" and k: "key \<in> fst ` set tr_en"
  from supported_table [OF l] obtain tb where tb: "map_of translations_tbl lang = Some tb"
    by blast
  from k table_keys [OF tb] have "key \<in> fst ` set tb"
    by (metis set_map)
  then have "map_of tb key \<noteq> None"
    by (simp add: map_of_eq_None_iff)
  then obtain v where v: "map_of tb key = Some v"
    by blast
  from tb v have ne: "v \<noteq> []"
    by (rule table_entry_truthy)
  with tb v have "t reads lang key = Inr (JStr v)"
    by (simp add: t_def table_get_def is_truthy_def)
  with tb v ne
  show "\<exists>tb v. map_of translations_tbl lang = Some tb \<and> map_of tb key = Some v \<and>
        v \<noteq> [] \<and> t reads lang key = Inr (JStr v)"
    by blast
qed

theorem t_resolves_witness:
  "js ''ar'' \<notin> set object_prototype \<and> js ''xx'' \<notin> set object_prototype \<and>
   js ''title'' \<notin> set object_prototype \<and> js ''nokey'' \<notin> set object_prototype \<and>
   js ''ar'' \<in> set supported_languages \<and> js ''title'' \<in> fst ` set tr_en \<and>
   t reads_example (js ''ar'') (js ''title'') =
     Inr (JStr ([0x645, 0x633, 0x627, 0x639, 0x62F, 0x64A] @ js '' ''
       @ [0x627, 0x644, 0x635, 0x648, 0x62A, 0x64A])) \<and>
   t reads_example (js ''xx'') (js ''title'') = Inr (JStr (js ''My Voice Assistant'')) \<and>
   t reads_example (js ''xx'') (js ''nokey'') = Inr (JStr (js ''nokey''))"
proof -
  have p: "js ''ar'' \<notin> set object_prototype" "js ''xx'' \<notin> set object_prototype"
    "js ''title'' \<notin> set object_prototype" "js ''nokey'' \<notin> set object_prototype"
    by (simp_all add: object_prototype_def js_def)
  have l: "js ''ar'' \<in> set supported_languages"
    by (simp add: supported_languages_def)
  have k: "js ''title'' \<in> fst ` set tr_en"
    by (simp add: tr_en_def)
  have ar: "map_of translations_tbl (js ''ar'') = Some tr_ar"
    and xx: "map_of translations_tbl (js ''xx'') = None"
    by (simp_all add: translations_tbl_def js_def)
  have ar_title: "map_of tr_ar (js ''title'') =
      Some ([0x645, 0x633, 0x627, 0x639, 0x62F, 0x64A] @ js '' ''
        @ [0x627, 0x644, 0x635, 0x648, 0x62A, 0x64A])"
    and en_title: "map_of tr_en (js ''title'') = Some (js ''My Voice Assistant'')"
    by (simp_all add: tr_ar_def tr_en_def)
  have "js ''nokey'' \<notin> set (map fst tr_en)"
    unfolding en_keys by (simp add: js_def)
  then have nokey: "map_of tr_en (js ''nokey'') = None"
    by (simp add: map_of_eq_None_iff)
  note A = t_resolves [where reads = reads_example and lang = "js ''ar''" and key = "js ''title''"]
  note B = t_resolves [where reads = reads_example and lang = "js ''xx''" and key = "js ''title''"]
  note C = t_resolves [where reads = reads_example and lang = "js ''xx''" and key = "js ''nokey''"]
  from A p have 1: "t reads_example (js ''ar'') (js ''title'') =
      Inr (JStr ([0x645, 0x633, 0x627, 0x639, 0x62F, 0x64A] @ js '' ''
        @ [0x627, 0x644, 0x635, 0x648, 0x62A, 0x64A]))"
    by (simp add: resolve_spec_def ar ar_title)
  from B p have 2: "t reads_example (js ''xx'') (js ''title'') =
      Inr (JStr (js ''My Voice Assistant''))"
    by (simp add: resolve_spec_def xx en_title)
  from C p have 3: "t reads_example (js ''xx'') (js ''nokey'') = Inr (JStr (js ''nokey''))"
    by (simp add: resolve_spec_def xx nokey)
  from p l k 1 2 3 show ?thesis
    by blast
qed

section \<open>Blank input\<close>

text \<open>\<open>trim\<close> leaves nothing exactly when every code unit is white space.\<close>

lemma trim_empty_iff: "trim s = [] \<longleftrightarrow> list_all is_ws s"
proof
  assume a: "trim s = []"
  show "list_all is_ws s"
  proof (rule ccontr)
    assume "\<not> list_all is_ws s"
    then have ne: "dropWhile is_ws s \<noteq> []"
      by (simp add: list_all_iff)
    then have "\<not> is_ws (hd (dropWhile is_ws s))"
      by (rule hd_dropWhile)
    moreover from ne have "hd (dropWhile is_ws s) \<in> set (dropWhile is_ws s)"
      by simp
    ultimately have "\<not> (\<forall>x \<in> set (rev (dropWhile is_ws s)). is_ws x)"
      by auto
    with a show False
      by (simp add: trim_def trimEnd_def trimStart_def)
  qed
next
  assume "list_all is_ws s"
  then have d: "dropWhile is_ws s = []"
    by (simp add: list_all_iff)
  show "trim s = []"
    unfolding trim_def trimEnd_def trimStart_def d by simp
qed

lemma two_spaces_ws: "list_all is_ws (js ''  '')"
  by (simp add: js_def is_ws_def)

text \<open>
  Claim C10. Submitting a text command that is empty or consists of white
  space only is a complete no-op: no request is sent and the state (the
  conversation log, the response, the audio reference, the actions and the
  command field included) is returned as it was.
\<close>

theorem handleSendCommand_blank:
  "list_all is_ws (command s) \<Longrightarrow> handleSendCommand fetch s = (s, [])"
  by (simp add: handleSendCommand_def trim_empty_iff)

theorem handleSendCommand_blank_witness:
  "list_all is_ws (command ((initial_state [])\<lparr>command := js ''  ''\<rparr>)) \<and>
   handleSendCommand (\<lambda>r. BadBody) ((initial_state [])\<lparr>command := js ''  ''\<rparr>) =
     ((initial_state [])\<lparr>command := js ''  ''\<rparr>, [])"
proof -
  have h: "list_all is_ws (command ((initial_state [])\<lparr>command := js ''  ''\<rparr>))"
    by (simp add: two_spaces_ws)
  from h handleSendCommand_blank [OF h] show ?thesis
    by simp
qed

text \<open>
  Claim C6. Submitting feedback whose message is empty or consists of white
  space only sends no request, sets the status to the localized
  \<open>feedbackEmpty\<close> message, and leaves the message and the rating (and every
  other cell) as they were.
\<close>

theorem handleSendFeedback_blank:
  "list_all is_ws (feedbackMessage s) \<Longrightarrow>
   handleSendFeedback fetch s =
     (s\<lparr>feedbackStatus := tr (language s) (js ''feedbackEmpty'')\<rparr>, []) \<and>
   snd (handleSendFeedback fetch s) = [] \<and>
   feedbackMessage (fst (handleSendFeedback fetch s)) = feedbackMessage s \<and>
   feedbackRating (fst (handleSendFeedback fetch s)) = feedbackRating s"
  by (simp add: handleSendFeedback_def trim_empty_iff)

theorem handleSendFeedback_blank_witness:
  "list_all is_ws (feedbackMessage ((initial_state [])\<lparr>feedbackMessage := js ''  ''\<rparr>)) \<and>
   snd (handleSendFeedback (\<lambda>r. BadBody)
          ((initial_state [])\<lparr>feedbackMessage := js ''  ''\<rparr>)) = [] \<and>
   feedbackMessage (fst (handleSendFeedback (\<lambda>r. BadBody)
          ((initial_state [])\<lparr>feedbackMessage := js ''  ''\<rparr>))) = js ''  ''"
proof -
  have h: "list_all is_ws (feedbackMessage ((initial_state [])\<lparr>feedbackMessage := js ''  ''\<rparr>))"
    by (simp add: two_spaces_ws)
  from h handleSendFeedback_blank [OF h] show ?thesis
    by simp
qed

section \<open>Feedback submission\<close>

lemma hi_not_blank: "\<not> list_all is_ws (js ''hi'')"
  by (simp add: js_def is_ws_def)

lemma trim_hi: "trim (js ''hi'') = js ''hi''"
  by (simp add: trim_def trimEnd_def trimStart_def js_def is_ws_def)

text \<open>
  Claim C9. After a feedback submission with a non-blank message: when the
  call succeeds, the message field is emptied and the rating is set back to 0;
  when it fails in any way (network error, non-success status, unreadable
  body), the status becomes the localized \<open>feedbackError\<close> message and nothing
  else changes, so the entered message and rating are still there.
\<close>

theorem handleSendFeedback_outcome:
  assumes "\<not> list_all is_ws (feedbackMessage s)"
  shows
    "(fetch (FeedbackRequest (js ''Rogerio'') (feedbackMessage s) (feedbackRating s) (language s))
        = OkJson d \<longrightarrow>
      feedbackMessage (fst (handleSendFeedback fetch s)) = [] \<and>
      feedbackRating (fst (handleSendFeedback fetch s)) = 0) \<and>
     (failed (fetch (FeedbackRequest (js ''Rogerio'') (feedbackMessage s) (feedbackRating s)
        (language s))) \<longrightarrow>
      fst (handleSendFeedback fetch s) =
        s\<lparr>feedbackStatus := tr (language s) (js ''feedbackError'')\<rparr>)"
  using assms
  by (auto simp: handleSendFeedback_def trim_empty_iff failed_def Let_def
      split: fetch_outcome.splits)

theorem handleSendFeedback_outcome_witness:
  "\<not> list_all is_ws
      (feedbackMessage ((initial_state [])\<lparr>feedbackMessage := js ''hi'', feedbackRating := 5\<rparr>)) \<and>
   feedbackMessage (fst (handleSendFeedback (\<lambda>q. OkJson body_empty)
      ((initial_state [])\<lparr>feedbackMessage := js ''hi'', feedbackRating := 5\<rparr>))) = [] \<and>
   feedbackRating (fst (handleSendFeedback (\<lambda>q. OkJson body_empty)
      ((initial_state [])\<lparr>feedbackMessage := js ''hi'', feedbackRating := 5\<rparr>))) = 0 \<and>
   failed (HttpError 500 (js ''boom'')) \<and>
   fst (handleSendFeedback (\<lambda>q. HttpError 500 (js ''boom''))
      ((initial_state [])\<lparr>feedbackMessage := js ''hi'', feedbackRating := 5\<rparr>)) =
     (initial_state [])\<lparr>feedbackMessage := js ''hi'', feedbackRating := 5,
        feedbackStatus := tr (js ''pt'') (js ''feedbackError'')\<rparr>"
proof -
  let ?s = "(initial_state [])\<lparr>feedbackMessage := js ''hi'', feedbackRating := 5\<rparr>"
  have h: "\<not> list_all is_ws (feedbackMessage ?s)"
    by (simp add: hi_not_blank)
  have f: "failed (HttpError 500 (js ''boom''))"
    by (simp add: failed_def)
  have l: "language ?s = js ''pt''"
    by (simp add: initial_state_def)
  from h f l
    handleSendFeedback_outcome [OF h, of "\<lambda>q. OkJson body_empty" body_empty]
    handleSendFeedback_outcome [OF h, of "\<lambda>q. HttpError 500 (js ''boom'')"]
  show ?thesis
    by simp
qed

section \<open>What a submission appends to the conversation log\<close>

lemma handleSendCommand_success:
  assumes "\<not> list_all is_ws (command s)"
    and "fetch (ProcessRequest (trim (command s)) (language s)) = OkJson d"
  shows "history (fst (handleSendCommand fetch s)) =
     history s @ [\<lparr>role = js ''user'', text = trim (command s)\<rparr>,
       \<lparr>role = js ''assistant'',
        text = or_default (data_response d) (tr (language s) (js ''assistantNotAvailable''))\<rparr>]"
  using assms by (simp add: handleSendCommand_def trim_empty_iff Let_def)

lemma handleSendCommand_failure:
  assumes "\<not> list_all is_ws (command s)"
    and "failed (fetch (ProcessRequest (trim (command s)) (language s)))"
  shows "history (fst (handleSendCommand fetch s)) =
     history s @ [\<lparr>role = js ''user'', text = trim (command s)\<rparr>,
       \<lparr>role = js ''error'', text = connection_error\<rparr>]"
  using assms
  by (auto simp: handleSendCommand_def trim_empty_iff Let_def failed_def
      split: fetch_outcome.splits)

lemma recorder_onstop_failure:
  assumes "failed (fetch (UploadRequest (make_blob (audioChunksRef s)) lang))"
  shows "history (fst (recorder_onstop url fetch lang s)) =
     history s @ [\<lparr>role = js ''error'', text = connection_error\<rparr>]"
  using assms
  by (auto simp: recorder_onstop_def Let_def failed_def split: fetch_outcome.splits)

text \<open>
  On a successful upload the handler appends the reply first (when the body
  has a response text) and the utterance second (when the body has an input
  text).
\<close>

lemma recorder_onstop_history:
  assumes "fetch (UploadRequest (make_blob (audioChunksRef s)) lang) = OkJson d"
  shows "history (fst (recorder_onstop url fetch lang s)) =
     history s
       @ (case data_response d of
            Some r \<Rightarrow> if r \<noteq> [] then [\<lparr>role = js ''assistant'', text = r\<rparr>] else []
          | None \<Rightarrow> [])
       @ (case data_input d of
            Some i \<Rightarrow> if i \<noteq> [] then [\<lparr>role = js ''user'', text = i\<rparr>] else []
          | None \<Rightarrow> [])"
  using assms
  by (simp add: recorder_onstop_def Let_def split: option.splits)

lemma upload_reply_precedes_utterance:
  "history (fst (recorder_onstop (\<lambda>b. js ''blob:1'') (\<lambda>q. OkJson body_R_hi) (js ''pt'')
      (initial_state []))) =
     [\<lparr>role = js ''assistant'', text = js ''R''\<rparr>, \<lparr>role = js ''user'', text = js ''hi''\<rparr>]"
  by (simp add: recorder_onstop_def Let_def body_R_hi_def body_R_def body_empty_def
      initial_state_def js_Nil_conv)

text \<open>
  Claim C1, as stated: every successful submission, typed or spoken, whose
  body has a response text adds exactly two exchanges, the user's utterance
  and then the assistant's reply. It fails for an upload whose body has a
  response text and no input text (the specification's own example body):
  the log gains the assistant's reply alone.
\<close>

theorem upload_without_input_counterexample:
  "history (fst (recorder_onstop (\<lambda>b. js ''blob:1'') (\<lambda>q. OkJson body_R) (js ''pt'')
      (initial_state []))) = [\<lparr>role = js ''assistant'', text = js ''R''\<rparr>] \<and>
   length (history (fst (recorder_onstop (\<lambda>b. js ''blob:1'') (\<lambda>q. OkJson body_R) (js ''pt'')
      (initial_state [])))) \<noteq> length (history (initial_state [])) + 2"
  by (simp add: recorder_onstop_def Let_def body_R_def body_empty_def initial_state_def
      js_Nil_conv)

text \<open>
  Claim C1, amended. A non-blank text command whose call succeeds adds exactly
  two exchanges, in order: the user's trimmed input, then the assistant's
  reply (the response text, or the localized \<open>assistantNotAvailable\<close> string
  when the body has none). A successful upload whose body has a response text
  adds the assistant's reply and, when the body also has the transcribed
  input, the user's utterance: exactly these two exchanges in that case (their
  order is not part of the statement), and the reply alone otherwise.
\<close>

theorem success_appends:
  "(\<not> list_all is_ws (command s) \<and>
    fetch (ProcessRequest (trim (command s)) (language s)) = OkJson d \<longrightarrow>
      history (fst (handleSendCommand fetch s)) =
        history s @ [\<lparr>role = js ''user'', text = trim (command s)\<rparr>,
          \<lparr>role = js ''assistant'',
           text = or_default (data_response d)
                    (tr (language s) (js ''assistantNotAvailable''))\<rparr>]) \<and>
   (fetch (UploadRequest (make_blob (audioChunksRef s)) lang) = OkJson d \<and>
    data_response d = Some r \<and> r \<noteq> [] \<and> data_input d = Some i \<and> i \<noteq> [] \<longrightarrow>
      (\<exists>new. history (fst (recorder_onstop url fetch lang s)) = history s @ new \<and>
         mset new = {#\<lparr>role = js ''user'', text = i\<rparr>,
                      \<lparr>role = js ''assistant'', text = r\<rparr>#})) \<and>
   (fetch (UploadRequest (make_blob (audioChunksRef s)) lang) = OkJson d \<and>
    data_response d = Some r \<and> r \<noteq> [] \<and> \<not> truthy (data_input d) \<longrightarrow>
      history (fst (recorder_onstop url fetch lang s)) =
        history s @ [\<lparr>role = js ''assistant'', text = r\<rparr>])"
proof (intro conjI impI)
  assume "\<not> list_all is_ws (command s) \<and>
    fetch (ProcessRequest (trim (command s)) (language s)) = OkJson d"
  then show "history (fst (handleSendCommand fetch s)) =
        history s @ [\<lparr>role = js ''user'', text = trim (command s)\<rparr>,
          \<lparr>role = js ''assistant'',
           text = or_default (data_response d)
                    (tr (language s) (js ''assistantNotAvailable''))\<rparr>]"
    by (simp add: handleSendCommand_success)
next
  assume "fetch (UploadRequest (make_blob (audioChunksRef s)) lang) = OkJson d \<and>
    data_response d = Some r \<and> r \<noteq> [] \<and> data_input d = Some i \<and> i \<noteq> []"
  then have "history (fst (recorder_onstop url fetch lang s)) =
      history s @ [\<lparr>role = js ''assistant'', text = r\<rparr>, \<lparr>role = js ''user'', text = i\<rparr>]"
    by (simp add: recorder_onstop_history)
  then show "\<exists>new. history (fst (recorder_onstop url fetch lang s)) = history s @ new \<and>
         mset new = {#\<lparr>role = js ''user'', text = i\<rparr>,
                      \<lparr>role = js ''assistant'', text = r\<rparr>#}"
    by simp
next
  assume "fetch (UploadRequest (make_blob (audioChunksRef s)) lang) = OkJson d \<and>
    data_response d = Some r \<and> r \<noteq> [] \<and> \<not> truthy (data_input d)"
  then show "history (fst (recorder_onstop url fetch lang s)) =
        history s @ [\<lparr>role = js ''assistant'', text = r\<rparr>]"
    by (auto simp: recorder_onstop_history truthy_def split: option.splits)
qed

theorem success_appends_witness:
  "\<not> list_all is_ws (js ''hi'') \<and>
   history (fst (handleSendCommand (\<lambda>q. OkJson body_R)
      ((initial_state [])\<lparr>command := js ''hi''\<rparr>))) =
     [\<lparr>role = js ''user'', text = js ''hi''\<rparr>, \<lparr>role = js ''assistant'', text = js ''R''\<rparr>] \<and>
   (\<exists>new. history (fst (recorder_onstop (\<lambda>b. js ''blob:1'') (\<lambda>q. OkJson body_R_hi) (js ''pt'')
        (initial_state []))) = new \<and>
      mset new = {#\<lparr>role = js ''user'', text = js ''hi''\<rparr>,
                   \<lparr>role = js ''assistant'', text = js ''R''\<rparr>#}) \<and>
   history (fst (recorder_onstop (\<lambda>b. js ''blob:1'') (\<lambda>q. OkJson body_R) (js ''pt'')
        (initial_state []))) = [\<lparr>role = js ''assistant'', text = js ''R''\<rparr>]"
proof -
  let ?s = "(initial_state [])\<lparr>command := js ''hi''\<rparr>"
  have c: "command ?s = js ''hi''" and h0: "history ?s = []" "history (initial_state []) = []"
    by (simp_all add: initial_state_def)
  have nb: "\<not> list_all is_ws (js ''hi'')"
    by (rule hi_not_blank)
  have r: "data_response body_R = Some (js ''R'')" "data_response body_R_hi = Some (js ''R'')"
    "data_input body_R_hi = Some (js ''hi'')" "\<not> truthy (data_input body_R)"
    "js ''R'' \<noteq> []" "js ''hi'' \<noteq> []"
    by (simp_all add: body_R_def body_R_hi_def body_empty_def truthy_def js_def)
  note A = success_appends [where s = ?s and fetch = "\<lambda>q. OkJson body_R" and d = body_R]
  note B = success_appends [where s = "initial_state []" and fetch = "\<lambda>q. OkJson body_R_hi"
      and d = body_R_hi and r = "js ''R''" and i = "js ''hi''" and lang = "js ''pt''"
      and url = "\<lambda>b. js ''blob:1''"]
  note C = success_appends [where s = "initial_state []" and fetch = "\<lambda>q. OkJson body_R"
      and d = body_R and r = "js ''R''" and lang = "js ''pt''" and url = "\<lambda>b. js ''blob:1''"]
  from A c h0 nb r
  have 1: "history (fst (handleSendCommand (\<lambda>q. OkJson body_R) ?s)) =
     [\<lparr>role = js ''user'', text = js ''hi''\<rparr>, \<lparr>role = js ''assistant'', text = js ''R''\<rparr>]"
    by (simp add: trim_hi or_default_def)
  from B h0 r
  have 2: "\<exists>new. history (fst (recorder_onstop (\<lambda>b. js ''blob:1'') (\<lambda>q. OkJson body_R_hi)
        (js ''pt'') (initial_state []))) = new \<and>
      mset new = {#\<lparr>role = js ''user'', text = js ''hi''\<rparr>,
                   \<lparr>role = js ''assistant'', text = js ''R''\<rparr>#}"
    by simp
  from C h0 r
  have 3: "history (fst (recorder_onstop (\<lambda>b. js ''blob:1'') (\<lambda>q. OkJson body_R) (js ''pt'')
        (initial_state []))) = [\<lparr>role = js ''assistant'', text = js ''R''\<rparr>]"
    by simp
  from nb 1 2 3 show ?thesis
    by blast
qed

text \<open>
  Claim C2, as stated: every failed submission, typed or spoken, adds exactly
  one exchange, of role \<open>error\<close>. It fails for a text command: the user's
  utterance is appended before the request is sent, so a failed text command
  adds two exchanges.
\<close>

theorem text_failure_counterexample:
  "history (fst (handleSendCommand (\<lambda>q. HttpError 500 (js ''boom''))
      ((initial_state [])\<lparr>command := js ''hi''\<rparr>))) =
     [\<lparr>role = js ''user'', text = js ''hi''\<rparr>,
      \<lparr>role = js ''error'', text = connection_error\<rparr>] \<and>
   length (history (fst (handleSendCommand (\<lambda>q. HttpError 500 (js ''boom''))
      ((initial_state [])\<lparr>command := js ''hi''\<rparr>)))) \<noteq>
     length (history ((initial_state [])\<lparr>command := js ''hi''\<rparr>)) + 1"
  by (simp add: handleSendCommand_def Let_def trim_hi initial_state_def js_Nil_conv)

text \<open>
  Claim C2, amended. A failed upload (network error, non-success status or
  unreadable body) adds exactly one exchange, of role \<open>error\<close>, whose text is
  the fixed connectivity message. A failed non-blank text command adds exactly
  two: the user's trimmed input, then that same \<open>error\<close> exchange. In both
  cases no \<open>assistant\<close> exchange is added, and the text of the \<open>error\<close>
  exchange does not depend on the status, body text or message the failure
  carried.
\<close>

theorem failure_appends:
  "(failed (fetch (UploadRequest (make_blob (audioChunksRef s)) lang)) \<longrightarrow>
      history (fst (recorder_onstop url fetch lang s)) =
        history s @ [\<lparr>role = js ''error'', text = connection_error\<rparr>]) \<and>
   (\<not> list_all is_ws (command s) \<and>
    failed (fetch (ProcessRequest (trim (command s)) (language s))) \<longrightarrow>
      history (fst (handleSendCommand fetch s)) =
        history s @ [\<lparr>role = js ''user'', text = trim (command s)\<rparr>,
          \<lparr>role = js ''error'', text = connection_error\<rparr>])"
  by (simp add: recorder_onstop_failure handleSendCommand_failure)

theorem failure_appends_witness:
  "failed (HttpError 500 (js ''boom'')) \<and> failed (NetworkError (js ''Failed to fetch'')) \<and>
   \<not> list_all is_ws (js ''hi'') \<and>
   history (fst (recorder_onstop (\<lambda>b. js ''blob:1'') (\<lambda>q. HttpError 500 (js ''boom''))
      (js ''pt'') (initial_state []))) = [\<lparr>role = js ''error'', text = connection_error\<rparr>] \<and>
   history (fst (handleSendCommand (\<lambda>q. NetworkError (js ''Failed to fetch''))
      ((initial_state [])\<lparr>command := js ''hi''\<rparr>))) =
     [\<lparr>role = js ''user'', text = js ''hi''\<rparr>,
      \<lparr>role = js ''error'', text = connection_error\<rparr>]"
proof -
  let ?s = "(initial_state [])\<lparr>command := js ''hi''\<rparr>"
  have c: "command ?s = js ''hi''" and h0: "history ?s = []" "history (initial_state []) = []"
    by (simp_all add: initial_state_def)
  have f: "failed (HttpError 500 (js ''boom''))" "failed (NetworkError (js ''Failed to fetch''))"
    by (simp_all add: failed_def)
  note A = failure_appends [where s = "initial_state []"
      and fetch = "\<lambda>q. HttpError 500 (js ''boom'')" and lang = "js ''pt''"
      and url = "\<lambda>b. js ''blob:1''"]
  note B = failure_appends [where s = ?s and fetch = "\<lambda>q. NetworkError (js ''Failed to fetch'')"]
  from A B c h0 f hi_not_blank show ?thesis
    by (simp add: trim_hi)
qed

section \<open>Starting a capture\<close>

text \<open>
  What \<open>startRecording\<close> does, whatever the state it runs in: it never reads
  the state of the current recorder.
\<close>

lemma startRecording_effect:
  "audioChunksRef (startRecording e s) = [] \<and>
   uploadStatus (startRecording e s) = js ''idle'' \<and>
   (has_getUserMedia e \<and> has_MediaRecorder e \<and> getUserMedia_ok e \<and>
    (ctor_options_ok e \<or> ctor_plain_ok e) \<and> start_ok e \<longrightarrow>
      startRecording e s =
        s\<lparr>audioChunksRef := [], uploadStatus := js ''idle'', response := [],
          recorders := recorders s @ [Recording],
          mediaRecorderRef := Some (length (recorders s)),
          timers := timers s @ [5000]\<rparr>)"
  by (auto simp: startRecording_def Let_def)

text \<open>
  On the recognition path a second start is turned down: \<open>start()\<close> throws,
  and the handler changes nothing but the response text.
\<close>

lemma recognition_second_start:
  assumes "recognitionRef s = Some r" and "recog_started r"
  shows "micButton e s = s\<lparr>response := tr (language s) (js ''recognitionNotSupported'')\<rparr>"
  using assms by (simp add: micButton_def startLocalRecognition_def)

text \<open>
  Claim C3 (a capture started while a session is active is rejected, and the
  existing session's state, its chunk buffer included, is left unchanged) at
  a second press of the mic button while the first recorder is recording, in
  a browser without speech recognition. The second press is not rejected: a
  second recorder is created and started beside the first, it replaces the
  first as the current recorder, and a second timeout is scheduled. A chunk
  the buffer holds at that moment is discarded.
\<close>

theorem second_capture_overlaps:
  "recorders (micButton browser_ok (initial_state [])) = [Recording] \<and>
   mediaRecorderRef (micButton browser_ok (initial_state [])) = Some 0 \<and>
   recorders (micButton browser_ok (micButton browser_ok (initial_state []))) =
     [Recording, Recording] \<and>
   mediaRecorderRef (micButton browser_ok (micButton browser_ok (initial_state []))) =
     Some 1 \<and>
   timers (micButton browser_ok (micButton browser_ok (initial_state []))) = [5000, 5000] \<and>
   audioChunksRef (recorder_ondataavailable (Some chunk_example)
     (micButton browser_ok (initial_state []))) = [chunk_example] \<and>
   audioChunksRef (micButton browser_ok (recorder_ondataavailable (Some chunk_example)
     (micButton browser_ok (initial_state [])))) = []"
  by (simp add: micButton_def startRecording_def recorder_ondataavailable_def Let_def
      browser_ok_def initial_state_def chunk_example_def)

section \<open>The auto-stop timer\<close>

text \<open>
  When the timeout's callback runs, the current recorder is stopped exactly
  when it is not inactive already; afterwards it is inactive.
\<close>

lemma autoStop_current:
  "mediaRecorderRef s = Some i \<Longrightarrow> i < length (recorders s) \<Longrightarrow>
   recorders (autoStop s) ! i = Inactive"
  by (simp add: autoStop_def)

lemma autoStop_iff:
  assumes "mediaRecorderRef s = Some i" and "i < length (recorders s)"
  shows "recorders (autoStop s) \<noteq> recorders s \<longleftrightarrow> recorders s ! i \<noteq> Inactive"
proof (cases "recorders s ! i = Inactive")
  case True
  with assms show ?thesis
    by (simp add: autoStop_def)
next
  case False
  with assms have "recorders (autoStop s) ! i = Inactive"
    by (simp add: autoStop_def)
  with False show ?thesis
    by auto
qed

text \<open>
  A session started while no recorder is active and no timeout is pending is
  stopped by its own timeout.
\<close>

lemma single_session_stops:
  assumes "\<forall>r \<in> set (recorders s). r = Inactive" and "timers s = []"
    and "has_getUserMedia e" "has_MediaRecorder e" "getUserMedia_ok e"
    and "ctor_options_ok e \<or> ctor_plain_ok e" and "start_ok e"
  shows "\<forall>r \<in> set (recorders (timer_fires (startRecording e s))). r = Inactive"
    and "timers (timer_fires (startRecording e s)) = []"
  using assms
  by (auto simp: timer_fires_def autoStop_def startRecording_def Let_def
      dest!: set_update_subset_insert [THEN subsetD])

text \<open>
  Claim C8 (every capture session is stopped by its 5-second timeout) at two
  overlapping sessions: the mic button is pressed twice before the first
  timeout fires. The first timeout stops the second recorder, the current
  one; the second timeout finds it inactive. No timeout is pending any more,
  and the first recorder is still recording.
\<close>

theorem overlapping_sessions_orphan:
  "recorders (timer_fires (timer_fires
      (startRecording browser_ok (startRecording browser_ok (initial_state []))))) =
     [Recording, Inactive] \<and>
   timers (timer_fires (timer_fires
      (startRecording browser_ok (startRecording browser_ok (initial_state []))))) = []"
  by (simp add: timer_fires_def autoStop_def startRecording_def Let_def browser_ok_def
      initial_state_def)

section \<open>Suggested actions\<close>

lemma decimal_nonempty: "decimal n \<noteq> []"
  by (subst decimal.simps) simp

lemma or_default_nonempty: "d \<noteq> [] \<Longrightarrow> or_default a d \<noteq> []"
  by (simp add: or_default_def split: option.split)

lemma render_pairs:
  "map (\<lambda>(i, item). render_item i item)
     (enumerate n (map (\<lambda>(k, v). ArrayItem [k, v]) kvs)) = map Some kvs"
  by (induction kvs arbitrary: n) (auto simp: render_item_def)

lemma render_object_nonempty:
  "fst (render_object i ps) \<noteq> [] \<and> snd (render_object i ps) \<noteq> []"
  by (simp add: render_object_def or_default_nonempty js_Nil_conv)

lemma render_object_default_url:
  assumes "\<not> truthy (map_of ps (js ''url''))" and "\<not> truthy (map_of ps (js ''href''))"
  shows "snd (render_object i ps) = js ''#''"
  using assms
  by (auto simp: render_object_def js_or_def or_default_def truthy_def split: option.splits)

text \<open>
  Claim C5, as stated: every entry of the normalized actions resolves to a
  non-empty label and a URL that defaults to \<open>#\<close>. It fails for the entries
  of a mapping, which are rendered as they are: an empty key gives an empty
  label, an empty URL stays empty; and a list element that is neither an
  array nor an object resolves to nothing.
\<close>

theorem mapping_entry_counterexample:
  "render_actions (normalize_actions (Some (ActionMap [([], js ''http://x'')]))) =
     [Some ([], js ''http://x'')] \<and>
   render_actions (normalize_actions (Some (ActionMap [(js ''Play'', [])]))) =
     [Some (js ''Play'', [])] \<and>
   render_actions (normalize_actions (Some (ActionList [OtherItem]))) = [None]"
  by (simp add: render_actions_def normalize_actions_def render_item_def)

lemma render_object_spec:
  "render_object i ps =
     (first_truthy [map_of ps (js ''label''), map_of ps (js ''title''), map_of ps (js ''name'')]
        (js ''Action '' @ decimal (i + 1)),
      first_truthy [map_of ps (js ''url''), map_of ps (js ''href'')] (js ''#''))"
  by (simp add: render_object_def js_or_def or_default_def truthy_def split: option.splits)

lemma decimal_examples: "decimal 1 = js ''1''" "decimal 12 = js ''12''"
  by (simp_all add: decimal.simps js_def)

text \<open>
  Claim C5, amended. A list is kept as it is and a mapping becomes the ordered
  list of its \<open>[key, value]\<close> pairs; each pair resolves to the key as label
  and the value as URL, unchanged. An object element resolves to its
  \<open>label\<close>, \<open>title\<close> or \<open>name\<close> (the first that is a non-empty string), else
  to \<open>Action n\<close> with \<open>n\<close> its position counted from one, and to its \<open>url\<close> or
  \<open>href\<close> (the first that is a non-empty string), else to \<open>#\<close>; both are
  non-empty. The mapping \<open>{"Play": "http://x"}\<close> resolves to the single entry
  with label \<open>Play\<close> and URL \<open>http://x\<close>.
\<close>

theorem actions_normalized:
  "normalize_actions (Some (ActionList xs)) = xs \<and>
   normalize_actions (Some (ActionMap kvs)) = map (\<lambda>(k, v). ArrayItem [k, v]) kvs \<and>
   render_actions (normalize_actions (Some (ActionMap kvs))) = map Some kvs \<and>
   render_item i (ArrayItem (k # u # rest)) = Some (k, u) \<and>
   render_item i (ObjectItem ps) =
     Some (first_truthy
             [map_of ps (js ''label''), map_of ps (js ''title''), map_of ps (js ''name'')]
             (js ''Action '' @ decimal (i + 1)),
           first_truthy [map_of ps (js ''url''), map_of ps (js ''href'')] (js ''#'')) \<and>
   (\<exists>l u. render_item i (ObjectItem ps) = Some (l, u) \<and> l \<noteq> [] \<and> u \<noteq> []) \<and>
   render_actions (normalize_actions (Some (ActionMap [(js ''Play'', js ''http://x'')]))) =
     [Some (js ''Play'', js ''http://x'')]"
proof -
  have 1: "render_actions (normalize_actions (Some (ActionMap m))) = map Some m" for m
    by (simp add: render_actions_def normalize_actions_def render_pairs)
  have 2: "\<exists>l u. render_item i (ObjectItem ps) = Some (l, u) \<and> l \<noteq> [] \<and> u \<noteq> []"
    using render_object_nonempty [of i ps]
    by (cases "render_object i ps") (simp add: render_item_def)
  have 3: "render_item i (ObjectItem ps) =
     Some (first_truthy
             [map_of ps (js ''label''), map_of ps (js ''title''), map_of ps (js ''name'')]
             (js ''Action '' @ decimal (i + 1)),
           first_truthy [map_of ps (js ''url''), map_of ps (js ''href'')] (js ''#''))"
    by (simp add: render_item_def render_object_spec)
  have 4: "render_item i (ArrayItem (k # u # rest)) = Some (k, u)"
    by (simp add: render_item_def)
  show ?thesis
    using 2 3 4 by (simp add: 1) (simp add: normalize_actions_def)
qed

theorem actions_normalized_witness:
  "render_item 0 (ObjectItem [(js ''label'', js ''Play'')]) = Some (js ''Play'', js ''#'') \<and>
   render_item 0 (ObjectItem [(js ''title'', js ''T''), (js ''href'', js ''http://h'')]) =
     Some (js ''T'', js ''http://h'') \<and>
   render_item 0 (ObjectItem [(js ''name'', js ''N''), (js ''url'', js ''http://u''),
       (js ''href'', js ''http://h'')]) = Some (js ''N'', js ''http://u'') \<and>
   render_item 11 (ObjectItem [(js ''label'', [])]) = Some (js ''Action 12'', js ''#'') \<and>
   render_item 3 (ArrayItem [js ''Play'', js ''http://x'']) = Some (js ''Play'', js ''http://x'')"
proof -
  note A = actions_normalized [where i = 0 and ps = "[(js ''label'', js ''Play'')]"]
  note B = actions_normalized [where i = 0
      and ps = "[(js ''title'', js ''T''), (js ''href'', js ''http://h'')]"]
  note C = actions_normalized [where i = 0
      and ps = "[(js ''name'', js ''N''), (js ''url'', js ''http://u''),
        (js ''href'', js ''http://h'')]"]
  note D = actions_normalized [where i = 11 and ps = "[(js ''label'', [])]"]
  note E = actions_normalized [where i = 3 and k = "js ''Play''" and u = "js ''http://x''"
      and rest = "[]"]
  have 1: "render_item 0 (ObjectItem [(js ''label'', js ''Play'')]) = Some (js ''Play'', js ''#'')"
    using A by (simp add: js_def)
  have 2: "render_item 0 (ObjectItem [(js ''title'', js ''T''), (js ''href'', js ''http://h'')]) =
     Some (js ''T'', js ''http://h'')"
    using B by (simp add: js_def)
  have 3: "render_item 0 (ObjectItem [(js ''name'', js ''N''), (js ''url'', js ''http://u''),
       (js ''href'', js ''http://h'')]) = Some (js ''N'', js ''http://u'')"
    using C by (simp add: js_def)
  have 4: "render_item 11 (ObjectItem [(js ''label'', [])]) = Some (js ''Action 12'', js ''#'')"
    using D decimal_examples by (simp add: js_def)
  have 5: "render_item 3 (ArrayItem [js ''Play'', js ''http://x'']) =
     Some (js ''Play'', js ''http://x'')"
    using E by simp
  from 1 2 3 4 5 show ?thesis
    by blast
qed

section \<open>The stored history\<close>

lemma unat_code: "n < 65536 \<Longrightarrow> unat (of_nat n :: 16 word) = n"
  by (simp add: unat_of_nat)

lemma hex_value_hex_digit: "d < 16 \<Longrightarrow> hex_value (hex_digit d) = Some d"
  by (auto simp: hex_value_def hex_digit_def unat_code Let_def)

lemma hex_recompose:
  fixes n :: nat
  shows "((n div 4096 * 16 + n div 256 mod 16) * 16 + n div 16 mod 16) * 16 + n mod 16 = n"
proof -
  have a: "n div 256 = n div 16 div 16" and b: "n div 4096 = n div 16 div 16 div 16"
    by (simp_all add: div_mult2_eq [symmetric])
  show ?thesis
    unfolding a b by (simp only: div_mult_mod_eq)
qed

lemma unat_bound: "unat (c :: 16 word) < 65536"
  using unsigned_less [of c, where ?'a = nat] by simp


lemma hex4_unicode:
  "hex4 (hex_digit (unat c div 4096)) (hex_digit (unat c div 256 mod 16))
     (hex_digit (unat c div 16 mod 16)) (hex_digit (unat c mod 16)) = Some c"
proof -
  have "unat c div 4096 < 16"
    using unat_bound [of c] by simp
  then have "hex4 (hex_digit (unat c div 4096)) (hex_digit (unat c div 256 mod 16))
     (hex_digit (unat c div 16 mod 16)) (hex_digit (unat c mod 16)) =
       Some (of_nat (((unat c div 4096 * 16 + unat c div 256 mod 16) * 16 + unat c div 16 mod 16)
         * 16 + unat c mod 16))"
    by (simp add: hex4_def hex_value_hex_digit del: of_nat_add of_nat_mult)
  then show ?thesis
    by (simp only: hex_recompose) simp
qed

lemma parse_unicode_escape:
  "parse_string_tail (unicode_escape c @ rest) =
     map_option (\<lambda>(s, r). (c # s, r)) (parse_string_tail rest)"
  by (simp add: unicode_escape_def Let_def hex4_unicode parse_string_tail.simps)

lemma parse_quote_unit:
  "parse_string_tail (quote_unit c @ rest) =
     map_option (\<lambda>(s, r). (c # s, r)) (parse_string_tail rest)"
  by (simp add: quote_unit_def parse_unicode_escape unescape_def parse_string_tail.simps)

lemma parse_pair:
  assumes "is_lead c"
  shows "parse_string_tail (c # rest) = map_option (\<lambda>(s, r). (c # s, r)) (parse_string_tail rest)"
proof -
  from assms have "c \<noteq> 0x22" "c \<noteq> 0x5C" "\<not> c < 0x20"
    unfolding is_lead_def by unat_arith+
  then show ?thesis
    by (simp add: parse_string_tail.simps)
qed

lemma parse_trail:
  assumes "is_trail c"
  shows "parse_string_tail (c # rest) = map_option (\<lambda>(s, r). (c # s, r)) (parse_string_tail rest)"
proof -
  from assms have "c \<noteq> 0x22" "c \<noteq> 0x5C" "\<not> c < 0x20"
    unfolding is_trail_def by unat_arith+
  then show ?thesis
    by (simp add: parse_string_tail.simps)
qed

lemma parse_quote_units:
  "parse_string_tail (quote_units s @ 0x22 # rest) = Some (s, rest)"
proof (induction s rule: quote_units.induct)
  case 1
  show ?case
    by (simp add: parse_string_tail.simps)
next
  case (2 c)
  show ?case
    by (simp add: parse_quote_unit) (simp add: parse_string_tail.simps)
next
  case (3 c d cs)
  show ?case
  proof (cases "is_lead c \<and> is_trail d")
    case True
    then have "parse_string_tail (quote_units (c # d # cs) @ 0x22 # rest) =
        parse_string_tail (c # d # quote_units cs @ 0x22 # rest)"
      by simp
    also have "\<dots> = map_option (\<lambda>(s, r). (c # s, r))
        (map_option (\<lambda>(s, r). (d # s, r)) (parse_string_tail (quote_units cs @ 0x22 # rest)))"
      using True by (simp add: parse_pair parse_trail)
    also have "\<dots> = Some (c # d # cs, rest)"
      using True 3 by simp
    finally show ?thesis .
  next
    case False
    then have "parse_string_tail (quote_units (c # d # cs) @ 0x22 # rest) =
        parse_string_tail (quote_unit c @ quote_units (d # cs) @ 0x22 # rest)"
      by auto
    also have "\<dots> = Some (c # d # cs, rest)"
      using False 3 by (simp only: parse_quote_unit) auto
    finally show ?thesis .
  qed
qed

lemma parse_string_quoted: "parse_string (QuoteJSONString s @ rest) = Some (s, rest)"
  by (simp add: parse_string_def QuoteJSONString_def parse_quote_units)

lemma expect_append: "expect p (p @ s) = Some s"
  by (simp add: expect_def)

lemma quoted_role: "QuoteJSONString (js ''role'') = [0x22] @ js ''role'' @ [0x22]"
  by (simp add: QuoteJSONString_def js_def quote_unit_def is_lead_def is_trail_def)

lemma quoted_text: "QuoteJSONString (js ''text'') = [0x22] @ js ''text'' @ [0x22]"
  by (simp add: QuoteJSONString_def js_def quote_unit_def is_lead_def is_trail_def)

lemma stringify_exchange_layout:
  "stringify_exchange e @ rest =
     ([0x7B, 0x22] @ js ''role'' @ [0x22, 0x3A]) @ QuoteJSONString (role e) @
     ([0x2C, 0x22] @ js ''text'' @ [0x22, 0x3A]) @ QuoteJSONString (text e) @ [0x7D] @ rest"
  by (simp add: stringify_exchange_def quoted_role quoted_text)

lemma parse_exchange_stringify:
  "parse_exchange (stringify_exchange e @ rest) = Some (e, rest)"
  unfolding stringify_exchange_layout parse_exchange_def
  by (simp only: expect_append parse_string_quoted Option.bind.simps prod.case)
    (simp add: expect_def)

lemma parse_rest_items:
  "parse_rest (concat (map (\<lambda>e. 0x2C # stringify_exchange e) es) @ [0x5D]) = Some es"
proof (induction es)
  case Nil
  show ?case
    by (simp add: parse_rest.simps)
next
  case (Cons e es)
  then show ?case
    by (subst parse_rest.simps) (simp add: parse_exchange_stringify)
qed

lemma join_comma_Cons:
  "join_comma (x # xs) = x @ concat (map (\<lambda>y. 0x2C # y) xs)"
  by (induction xs arbitrary: x) simp_all

lemma stringify_exchange_head: "\<exists>cs. stringify_exchange e = 0x7B # cs"
  by (simp add: stringify_exchange_def)

lemma JSON_parse_stringify: "JSON_parse (JSON_stringify h) = Some h"
proof (cases h)
  case Nil
  then show ?thesis
    by (simp add: JSON_parse_def JSON_stringify_def)
next
  case (Cons e es)
  obtain cs where cs: "stringify_exchange e = 0x7B # cs"
    using stringify_exchange_head by blast
  have "JSON_stringify h =
      0x5B # stringify_exchange e @ concat (map (\<lambda>e. 0x2C # stringify_exchange e) es) @ [0x5D]"
    by (simp add: Cons JSON_stringify_def join_comma_Cons comp_def)
  moreover have "parse_exchange (stringify_exchange e @
      concat (map (\<lambda>e. 0x2C # stringify_exchange e) es) @ [0x5D]) =
        Some (e, concat (map (\<lambda>e. 0x2C # stringify_exchange e) es) @ [0x5D])"
    by (rule parse_exchange_stringify)
  ultimately show ?thesis
    using cs Cons by (simp add: JSON_parse_def parse_rest_items)
qed

text \<open>The serializer and the parser on two concrete texts.\<close>

lemma stringify_example:
  "JSON_stringify
     [\<lparr>role = js ''user'', text = js ''say '' @ [0x22] @ js ''hi'' @ [0x22, 0x0A, 0x01]\<rparr>,
      \<lparr>role = js ''error'', text = connection_error\<rparr>] =
   [0x5B, 0x7B, 0x22] @ js ''role'' @ [0x22, 0x3A, 0x22] @ js ''user'' @ [0x22, 0x2C, 0x22]
     @ js ''text'' @ [0x22, 0x3A, 0x22] @ js ''say '' @ [0x5C, 0x22] @ js ''hi'' @ [0x5C, 0x22]
     @ [0x5C] @ js ''n'' @ [0x5C] @ js ''u0001'' @ [0x22, 0x7D, 0x2C, 0x7B, 0x22]
     @ js ''role'' @ [0x22, 0x3A, 0x22] @ js ''error'' @ [0x22, 0x2C, 0x22] @ js ''text''
     @ [0x22, 0x3A, 0x22] @ connection_error @ [0x22, 0x7D, 0x5D]"
  by (simp add: JSON_stringify_def stringify_exchange_def QuoteJSONString_def quote_unit_def
      unicode_escape_def hex_digit_def is_lead_def is_trail_def connection_error_def js_def)

lemma parse_example:
  "JSON_parse ([0x5B, 0x7B, 0x22] @ js ''role'' @ [0x22, 0x3A, 0x22] @ js ''user''
     @ [0x22, 0x2C, 0x22] @ js ''text'' @ [0x22, 0x3A, 0x22] @ js ''a'' @ [0x5C] @ js ''u00E3''
     @ [0x5C] @ js ''/'' @ [0x22, 0x7D, 0x5D]) =
   Some [\<lparr>role = js ''user'', text = js ''a'' @ [0xE3] @ js ''/''\<rparr>]"
  by (simp add: JSON_parse_def parse_exchange_def expect_def parse_string_def
      parse_string_tail.simps parse_rest.simps hex4_def hex_value_def unescape_def js_def)

text \<open>
  Claim C7. Writing the conversation log to client storage and loading it
  again gives the same ordered sequence of exchanges, for every log: parsing
  the serialized log yields the log, the initializer reads back what the
  effect wrote, and a component mounted on that storage starts with that
  history.
\<close>

theorem persisted_history_reloads:
  "JSON_parse (JSON_stringify h) = Some h \<and>
   load_history (persist_history h st) = Some h \<and>
   map_option history (mount (persist_history h st)) = Some h"
proof -
  have "JSON_stringify h \<noteq> []"
    by (simp add: JSON_stringify_def)
  then have "load_history (persist_history h st) = Some h"
    by (simp add: load_history_def persist_history_def JSON_parse_stringify)
  then show ?thesis
    by (simp add: mount_def JSON_parse_stringify initial_state_def)
qed

end
